theory Spec2Isabelle
  imports Main
begin

section \<open>The Splunk Enterprise receiver's scraper (scraper.go)\<close>

text \<open>
  A shallow embedding of \<^verbatim>\<open>receiver/splunkenterprisereceiver/scraper.go\<close>: the
  orchestrator \<^verbatim>\<open>scrape\<close>, the job poller \<^verbatim>\<open>scrapeLicenseUsageByIndex\<close>, the decoder
  helper \<^verbatim>\<open>unmarshallSearchReq\<close> and the endpoint fetcher \<^verbatim>\<open>scrapeIndexThroughput\<close>.
  Everything the file mutates (the wall clock, the HTTP transport, response bodies, the
  error accumulator, the metrics builder) is a field of one explicit state record that
  every function takes and returns.
\<close>

subsection \<open>Errors\<close>

text \<open>
  Go errors are values. \<^verbatim>\<open>errMaxSearchWaitTimeExceeded\<close> is the package's own sentinel
  (line 27). \<open>ExtError\<close> is an error made outside this file (transport, io, encoding/xml,
  encoding/json, strconv), identified by its message. \<open>Errorf p e\<close> is
  \<^verbatim>\<open>fmt.Errorf(p + "%w", e)\<close>, the wrapping done by \<^verbatim>\<open>unmarshallSearchReq\<close>.
  \<open>Combined\<close> is what the accumulator's \<^verbatim>\<open>Combine\<close> returns for a non-empty
  accumulator.
\<close>

datatype error =
    errMaxSearchWaitTimeExceeded
  | ExtError string
  | Errorf string error
  | Combined "error list"

subsection \<open>Data\<close>

text \<open>
  The struct declarations are not part of scraper.go; the records have exactly the
  fields that scraper.go reads and writes. \<open>'f\<close> stands for Go's \<^verbatim>\<open>float64\<close>, which is
  kept abstract.
\<close>

record field =
  FieldName :: string
  Value :: string

record searchResponse =
  search :: string
  Jobid :: "string option"
  Return :: int
  Fields :: "field list"

record 'f idxTContent =
  Status :: string
  AvgKb :: 'f

record 'f idxTEntry =
  Content :: "'f idxTContent"

record 'f indexThroughput =
  Entries :: "'f idxTEntry list"

text \<open>
  A \<^verbatim>\<open>context.Context\<close>: the only thing recorded about it is the instant (a clock
  reading, in nanoseconds) at which it is cancelled, if ever.
\<close>

record go_context =
  canceledAt :: "int option"

record request =
  req_ctx :: go_context
  req_method :: string
  req_url :: string
  req_data :: string

text \<open>
  An \<^verbatim>\<open>http.Response\<close>. \<open>Body\<close> is the handle of the body stream, \<open>ReadAll\<close> is what
  \<^verbatim>\<open>io.ReadAll(res.Body)\<close> returns on it: the bytes read, and the read error if any.
\<close>

record response =
  StatusCode :: int
  ContentLength :: int
  Body :: nat
  ReadAll :: "string \<times> error option"

record Config =
  SplunkLicenseIndexUsage_Enabled :: bool
  SplunkIndexerThroughput_Enabled :: bool
  MaxSearchWaitTime :: int

text \<open>
  \<^verbatim>\<open>splunkEntClient\<close>: request construction is declared outside scraper.go and is a
  parameter. Both constructors return either an error or a request, and are taken
  not to write to the search response they are handed.
\<close>

record splunkEntClient =
  createRequest :: "go_context \<Rightarrow> searchResponse \<Rightarrow> error + request"
  createAPIRequest :: "go_context \<Rightarrow> string \<Rightarrow> error + request"

record splunkScraper =
  splunkClient :: splunkEntClient
  conf :: Config

text \<open>
  What scraper.go takes from the Go standard library and from the package's tables.
  The decoders return the (possibly partly filled) target together with the error, as
  \<^verbatim>\<open>xml.Unmarshal(body, &sr)\<close> and \<^verbatim>\<open>json.Unmarshal(body, &it)\<close> do through their pointer
  argument.
\<close>

record 'f extern =
  xml_Unmarshal :: "string \<Rightarrow> searchResponse \<Rightarrow> error option \<times> searchResponse"
  json_Unmarshal :: "string \<Rightarrow> 'f indexThroughput \<Rightarrow> error option \<times> 'f indexThroughput"
  ParseFloat :: "string \<Rightarrow> error + 'f"
  int64 :: "'f \<Rightarrow> int"
  times1000 :: "'f \<Rightarrow> 'f"
  searchDict :: "string \<Rightarrow> string"
  apiDict :: "string \<Rightarrow> string"

subsection \<open>The state\<close>

datatype metric = SplunkLicenseIndexUsage | SplunkIndexerThroughput

datatype 'f number = IntVal int | DoubleVal 'f

record 'f datapoint =
  dp_metric :: metric
  dp_ts :: int
  dp_value :: "'f number"
  dp_attr :: string

text \<open>
  One scripted outcome of the transport: the time the call takes (nanoseconds) and what
  it returns.
\<close>

record outcome =
  latency :: nat
  reply :: "error + response"

record 'f world =
  clock :: int
  transport :: "outcome list"
  sent :: "request list"
  open_bodies :: "nat set"
  errs :: "error list"
  mb :: "'f datapoint list"

text \<open>
  The state: the wall clock (\<^verbatim>\<open>time.Now()\<close>, in nanoseconds), the outcomes the
  transport has yet to give, the requests it was given, the handles of the response
  bodies that are open, the error accumulator \<^verbatim>\<open>errs\<close> and the datapoints held by the
  metrics builder \<^verbatim>\<open>mb\<close>. Time passes in the transport and in \<^verbatim>\<open>time.Sleep\<close> only,
  and a sleep lasts exactly its duration.
\<close>

definition Second :: int where
  "Second = 1000000000"

definition Sleep :: "int \<Rightarrow> 'f world \<Rightarrow> 'f world" where
  "Sleep d w = w\<lparr>clock := clock w + d\<rparr>"

definition errs_Add :: "error \<Rightarrow> 'f world \<Rightarrow> 'f world" where
  "errs_Add e w = w\<lparr>errs := errs w @ [e]\<rparr>"

definition Body_Close :: "response \<Rightarrow> 'f world \<Rightarrow> 'f world" where
  "Body_Close res w = w\<lparr>open_bodies := open_bodies w - {Body res}\<rparr>"

text \<open>
  Modelled from the spec: \<^verbatim>\<open>makeRequest\<close> of the HTTP transport wrapper is not in
  scraper.go (``executes them, and returns the raw response''). The transport is a
  script, as a mock transport is: each call logs the request, takes the next scripted
  outcome and the time it needs, and hands out a response whose body is open. The
  result is \<open>None\<close> where the run is not determined: the script is exhausted, or the
  request is nil.
\<close>

definition makeRequest :: "request option \<Rightarrow> 'f world \<Rightarrow> ((error + response) \<times> 'f world) option" where
  "makeRequest req w =
     (case req of
        None \<Rightarrow> None
      | Some r \<Rightarrow>
         (case transport w of
            [] \<Rightarrow> None
          | out # rest \<Rightarrow>
             (let w1 = w\<lparr>clock := clock w + int (latency out), transport := rest,
                         sent := sent w @ [r]\<rparr>
              in case reply out of
                   Inl err \<Rightarrow> Some (Inl err, w1)
                 | Inr res \<Rightarrow>
                     Some (Inr (res\<lparr>Body := length (sent w)\<rparr>),
                           w1\<lparr>open_bodies := insert (length (sent w)) (open_bodies w1)\<rparr>))))"

text \<open>
  Modelled from the spec: the generated metrics builder is not in scraper.go
  (``record(timestamp, value, ...dimension labels): one call per datapoint'',
  ``emit() -> MetricSnapshot''). Recording appends one datapoint.
\<close>

definition RecordSplunkLicenseIndexUsageDataPoint :: "int \<Rightarrow> int \<Rightarrow> string \<Rightarrow> 'f world \<Rightarrow> 'f world" where
  "RecordSplunkLicenseIndexUsageDataPoint ts val indexName w =
     w\<lparr>mb := mb w @ [\<lparr>dp_metric = SplunkLicenseIndexUsage, dp_ts = ts,
                        dp_value = IntVal val, dp_attr = indexName\<rparr>]\<rparr>"

definition RecordSplunkIndexerThroughputDataPoint :: "int \<Rightarrow> 'f \<Rightarrow> string \<Rightarrow> 'f world \<Rightarrow> 'f world" where
  "RecordSplunkIndexerThroughputDataPoint ts val status w =
     w\<lparr>mb := mb w @ [\<lparr>dp_metric = SplunkIndexerThroughput, dp_ts = ts,
                        dp_value = DoubleVal val, dp_attr = status\<rparr>]\<rparr>"

definition Emit :: "'f world \<Rightarrow> 'f datapoint list \<times> 'f world" where
  "Emit w = (mb w, w\<lparr>mb := []\<rparr>)"

text \<open>
  Modelled from the spec: \<^verbatim>\<open>scrapererror.ScrapeErrors.Combine\<close> (``combines into a
  single error value representing N failures occurred, or a no-error value if empty'').
\<close>

definition Combine :: "error list \<Rightarrow> error option" where
  "Combine es = (if es = [] then None else Some (Combined es))"

subsection \<open>unmarshallSearchReq (lines 139-157)\<close>

definition unmarshallSearchReq :: "'f extern \<Rightarrow> response \<Rightarrow> searchResponse \<Rightarrow> error option \<times> searchResponse" where
  "unmarshallSearchReq lib res sr =
     (let sr1 = sr\<lparr>Return := StatusCode res\<rparr>
      in if ContentLength res = 0 then (None, sr1)
         else (case ReadAll res of
                 (body, Some err) \<Rightarrow> (Some (Errorf ''Failed to read response: '' err), sr1)
               | (body, None) \<Rightarrow>
                   (case xml_Unmarshal lib body sr1 of
                      (Some err, sr2) \<Rightarrow> (Some (Errorf ''Failed to unmarshall response: '' err), sr2)
                    | (None, sr2) \<Rightarrow> (None, sr2))))"

subsection \<open>scrapeLicenseUsageByIndex (lines 63-136)\<close>

text \<open>How the \<^verbatim>\<open>for\<close> loop of lines 83-118 is left: by \<^verbatim>\<open>break\<close>, or by \<^verbatim>\<open>return\<close>.\<close>

datatype loop_exit = Break searchResponse | Returned

function poll :: "'f extern \<Rightarrow> splunkScraper \<Rightarrow> go_context \<Rightarrow> int \<Rightarrow> searchResponse \<Rightarrow> 'f world
    \<Rightarrow> (loop_exit \<times> 'f world) option" where
  "poll lib s ctx start sr w =
     (case createRequest (splunkClient s) ctx sr of
        Inl err \<Rightarrow> Some (Returned, errs_Add err w)
      | Inr req \<Rightarrow>
         (case makeRequest (Some req) w of
            None \<Rightarrow> None
          | Some (Inl err, w1) \<Rightarrow> Some (Returned, errs_Add err w1)
          | Some (Inr res, w1) \<Rightarrow>
             (case unmarshallSearchReq lib res sr of
                (Some err, sr1) \<Rightarrow> Some (Returned, errs_Add err w1)
              | (None, sr1) \<Rightarrow>
                 (let w2 = Body_Close res w1
                  in if Return sr1 = 200 \<and> Jobid sr1 \<noteq> None then Some (Break sr1, w2)
                     else (let w3 = (if Return sr1 = 204 then Sleep (2 * Second) w2 else w2)
                           in if clock w3 - start > MaxSearchWaitTime (conf s)
                              then Some (Returned, errs_Add errMaxSearchWaitTimeExceeded w3)
                              else poll lib s ctx start sr1 w3)))))"
  by pat_completeness auto

text \<open>The loop of lines 122-135, with the local variable \<^verbatim>\<open>indexName\<close> as an argument.\<close>

fun recordFields :: "'f extern \<Rightarrow> int \<Rightarrow> field list \<Rightarrow> string \<Rightarrow> 'f world \<Rightarrow> 'f world" where
  "recordFields lib now [] indexName w = w"
| "recordFields lib now (f # fs) indexName w =
     (if FieldName f = ''indexname'' then recordFields lib now fs (Value f) w
      else if FieldName f = ''By'' then
        (case ParseFloat lib (Value f) of
           Inl err \<Rightarrow> recordFields lib now fs indexName (errs_Add err w)
         | Inr v \<Rightarrow>
             recordFields lib now fs indexName
               (RecordSplunkLicenseIndexUsageDataPoint now (int64 lib v) indexName w))
      else recordFields lib now fs indexName w)"

definition scrapeLicenseUsageByIndex :: "'f extern \<Rightarrow> splunkScraper \<Rightarrow> go_context \<Rightarrow> int \<Rightarrow> 'f world
    \<Rightarrow> 'f world option" where
  "scrapeLicenseUsageByIndex lib s ctx now w =
     (if \<not> SplunkLicenseIndexUsage_Enabled (conf s) then Some w
      else
        (let sr = \<lparr>search = searchDict lib ''SplunkLicenseIndexUsageSearch'', Jobid = None,
                    Return = 0, Fields = []\<rparr>;
             start = clock w
         in case poll lib s ctx start sr w of
              None \<Rightarrow> None
            | Some (Returned, w1) \<Rightarrow> Some w1
            | Some (Break sr1, w1) \<Rightarrow> Some (recordFields lib now (Fields sr1) [] w1)))"

subsection \<open>scrapeIndexThroughput (lines 160-195)\<close>

fun recordEntries :: "'f extern \<Rightarrow> int \<Rightarrow> 'f idxTEntry list \<Rightarrow> 'f world \<Rightarrow> 'f world" where
  "recordEntries lib now [] w = w"
| "recordEntries lib now (entry # es) w =
     recordEntries lib now es
       (RecordSplunkIndexerThroughputDataPoint now (times1000 lib (AvgKb (Content entry)))
          (Status (Content entry)) w)"

text \<open>
  After a failed \<^verbatim>\<open>createAPIRequest\<close> the function goes on with a nil request (line 175);
  after a failed read it goes on with the bytes read so far (line 187); after a failed
  decode it goes on with what the decoder left in \<^verbatim>\<open>it\<close> (line 192). The deferred
  \<^verbatim>\<open>res.Body.Close()\<close> of line 180 runs when the function returns.
\<close>

definition scrapeIndexThroughput :: "'f extern \<Rightarrow> splunkScraper \<Rightarrow> go_context \<Rightarrow> int \<Rightarrow> 'f world
    \<Rightarrow> 'f world option" where
  "scrapeIndexThroughput lib s ctx now w =
     (if \<not> SplunkIndexerThroughput_Enabled (conf s) then Some w
      else
        (let it = \<lparr>Entries = []\<rparr>;
             ept = apiDict lib ''SplunkIndexerThroughput'';
             (req, w1) = (case createAPIRequest (splunkClient s) ctx ept of
                            Inl err \<Rightarrow> (None, errs_Add err w)
                          | Inr r \<Rightarrow> (Some r, w))
         in case makeRequest req w1 of
              None \<Rightarrow> None
            | Some (Inl err, w2) \<Rightarrow> Some (errs_Add err w2)
            | Some (Inr res, w2) \<Rightarrow>
                (let (body, rerr) = ReadAll res;
                     w3 = (case rerr of Some err \<Rightarrow> errs_Add err w2 | None \<Rightarrow> w2);
                     (derr, it1) = json_Unmarshal lib body it;
                     w4 = (case derr of Some err \<Rightarrow> errs_Add err w3 | None \<Rightarrow> w3);
                     w5 = recordEntries lib now (Entries it1) w4
                 in Some (Body_Close res w5))))"

subsection \<open>scrape (lines 53-60)\<close>

text \<open>
  The accumulator is made fresh (line 54), the timestamp is the clock reading at the
  start (line 55); the result is the emitted datapoints and the combined error.
\<close>

definition scrape :: "'f extern \<Rightarrow> splunkScraper \<Rightarrow> go_context \<Rightarrow> 'f world
    \<Rightarrow> (('f datapoint list \<times> error option) \<times> 'f world) option" where
  "scrape lib s ctx w =
     (let w0 = w\<lparr>errs := []\<rparr>;
          now = clock w0
      in case scrapeLicenseUsageByIndex lib s ctx now w0 of
           None \<Rightarrow> None
         | Some w1 \<Rightarrow>
             (case scrapeIndexThroughput lib s ctx now w1 of
                None \<Rightarrow> None
              | Some w2 \<Rightarrow>
                  (let (metrics, w3) = Emit w2
                   in Some ((metrics, Combine (errs w3)), w3))))"

subsection \<open>What the claims speak about\<close>

text \<open>
  The field mapping as the claim words it: the dimension of the datapoint of the field
  at position \<open>i\<close> is the value of the last \<^verbatim>\<open>indexname\<close> field before \<open>i\<close>, and the
  empty string when there is none; a datapoint is produced by every \<^verbatim>\<open>By\<close> field
  whose value converts, and a failure by every \<^verbatim>\<open>By\<close> field whose value does not.
\<close>

definition indexname_before :: "field list \<Rightarrow> nat \<Rightarrow> string" where
  "indexname_before fs i =
     (case filter (\<lambda>f. FieldName f = ''indexname'') (take i fs) of
        [] \<Rightarrow> []
      | x # xs \<Rightarrow> Value (last (x # xs)))"

definition usage_datapoints :: "'f extern \<Rightarrow> int \<Rightarrow> field list \<Rightarrow> 'f datapoint list" where
  "usage_datapoints lib now fs =
     List.map_filter
       (\<lambda>i. if FieldName (fs ! i) = ''By''
            then (case ParseFloat lib (Value (fs ! i)) of
                    Inl err \<Rightarrow> None
                  | Inr v \<Rightarrow> Some \<lparr>dp_metric = SplunkLicenseIndexUsage, dp_ts = now,
                                    dp_value = IntVal (int64 lib v),
                                    dp_attr = indexname_before fs i\<rparr>)
            else None)
       [0..<length fs]"

definition conversion_failures :: "'f extern \<Rightarrow> field list \<Rightarrow> error list" where
  "conversion_failures lib fs =
     List.map_filter
       (\<lambda>f. if FieldName f = ''By''
            then (case ParseFloat lib (Value f) of Inl err \<Rightarrow> Some err | Inr v \<Rightarrow> None)
            else None)
       fs"

text \<open>The same, from a given starting value of \<^verbatim>\<open>indexName\<close> (for the induction).\<close>

definition dim_from :: "string \<Rightarrow> field list \<Rightarrow> nat \<Rightarrow> string" where
  "dim_from ix fs i =
     (case filter (\<lambda>f. FieldName f = ''indexname'') (take i fs) of
        [] \<Rightarrow> ix
      | x # xs \<Rightarrow> Value (last (x # xs)))"

definition dp_at :: "'f extern \<Rightarrow> int \<Rightarrow> string \<Rightarrow> field list \<Rightarrow> nat \<Rightarrow> 'f datapoint option" where
  "dp_at lib now ix fs i =
     (if FieldName (fs ! i) = ''By''
      then (case ParseFloat lib (Value (fs ! i)) of
              Inl err \<Rightarrow> None
            | Inr v \<Rightarrow> Some \<lparr>dp_metric = SplunkLicenseIndexUsage, dp_ts = now,
                              dp_value = IntVal (int64 lib v),
                              dp_attr = dim_from ix fs i\<rparr>)
      else None)"

text \<open>
  A pending poll: the transport answers 204, and the response has no body (the HTTP
  client reports \<^verbatim>\<open>ContentLength\<close> 0 for it).
\<close>

definition is204 :: "outcome \<Rightarrow> bool" where
  "is204 out = (case reply out of Inl err \<Rightarrow> False
                | Inr res \<Rightarrow> StatusCode res = 204 \<and> ContentLength res = 0)"

text \<open>
  The wall-clock time a run of pending polls takes: each poll its latency and the sleep
  of 2 seconds that follows it.
\<close>

definition elapsed :: "outcome list \<Rightarrow> int" where
  "elapsed rs = (\<Sum>out\<leftarrow>rs. int (latency out) + 2 * Second)"

subsection \<open>A concrete scraper for the examples\<close>

text \<open>
  A client that builds a POST for a search with no job id and a GET for the results of
  a job, and a library stub that is fixed on the bodies and literals of the examples:
  it decodes one results document and one throughput document, fills in the entry of a
  throughput document whose status has the wrong type before it reports the type
  error (as encoding/json does: it skips the field, completes the rest and returns the
  first such error), and rejects every other body, the empty one with the decoders'
  end-of-input errors.
\<close>

definition fx_client :: splunkEntClient where
  "fx_client =
     \<lparr>createRequest = (\<lambda>ctx sr. Inr \<lparr>req_ctx = ctx,
          req_method = (if Jobid sr = None then ''POST'' else ''GET''),
          req_url = (case Jobid sr of None \<Rightarrow> ''/services/search/jobs/''
                     | Some j \<Rightarrow> ''/services/search/jobs/'' @ j @ ''/results''),
          req_data = (if Jobid sr = None then search sr else [])\<rparr>),
      createAPIRequest = (\<lambda>ctx ept. Inr \<lparr>req_ctx = ctx, req_method = ''GET'',
          req_url = ept, req_data = []\<rparr>)\<rparr>"

definition fx_scraper :: "bool \<Rightarrow> bool \<Rightarrow> int \<Rightarrow> splunkScraper" where
  "fx_scraper license throughput maxwait =
     \<lparr>splunkClient = fx_client,
      conf = \<lparr>SplunkLicenseIndexUsage_Enabled = license,
               SplunkIndexerThroughput_Enabled = throughput,
               MaxSearchWaitTime = maxwait\<rparr>\<rparr>"

definition xml_results :: string where
  "xml_results = ''<response><sid>7</sid><result><field k='indexname'><value><text>main</text></value></field><field k='host'><value><text>idx1</text></value></field><field k='By'><value><text>42.0</text></value></field></result></response>''"

definition json_entry :: string where
  \<open>json_entry = ''{"entry":[{"content":{"status":"ok","average_kbps":2}}]}''\<close>

definition json_mistyped :: string where
  \<open>json_mistyped = ''{"entry":[{"content":{"average_kbps":2,"status":7}}]}''\<close>

definition fx_lib :: "int extern" where
  "fx_lib =
     \<lparr>xml_Unmarshal = (\<lambda>body sr.
          if body = xml_results
          then (None, sr\<lparr>Jobid := Some ''7'',
                  Fields := Fields sr @ [\<lparr>FieldName = ''indexname'', Value = ''main''\<rparr>,
                                         \<lparr>FieldName = ''host'', Value = ''idx1''\<rparr>,
                                         \<lparr>FieldName = ''By'', Value = ''42.0''\<rparr>]\<rparr>)
          else if body = [] then (Some (ExtError ''EOF''), sr)
          else (Some (ExtError ''XML syntax error''), sr)),
      json_Unmarshal = (\<lambda>body it.
          if body = json_entry
          then (None, it\<lparr>Entries := [\<lparr>Content = \<lparr>Status = ''ok'', AvgKb = 2\<rparr>\<rparr>]\<rparr>)
          else if body = json_mistyped
          then (Some (ExtError ''json: cannot unmarshal number into Go struct field of type string''),
                it\<lparr>Entries := [\<lparr>Content = \<lparr>Status = [], AvgKb = 2\<rparr>\<rparr>]\<rparr>)
          else if body = [] then (Some (ExtError ''unexpected end of JSON input''), it)
          else (Some (ExtError ''invalid character''), it)),
      ParseFloat = (\<lambda>s. if s = ''42.0'' then Inr 42
                         else Inl (ExtError ''strconv.ParseFloat: invalid syntax'')),
      int64 = (\<lambda>v. v),
      times1000 = (\<lambda>v. 1000 * v),
      searchDict = (\<lambda>k. if k = ''SplunkLicenseIndexUsageSearch'' then ''search=Q'' else []),
      apiDict = (\<lambda>k. if k = ''SplunkIndexerThroughput''
                      then ''/services/server/introspection/indexer?output_mode=json'' else [])\<rparr>"

definition fx_world :: "outcome list \<Rightarrow> int world" where
  "fx_world script =
     \<lparr>clock = 0, transport = script, sent = [], open_bodies = {}, errs = [], mb = []\<rparr>"

definition fx_ctx :: go_context where
  "fx_ctx = \<lparr>canceledAt = None\<rparr>"

definition fx_reply :: "int \<Rightarrow> int \<Rightarrow> string \<Rightarrow> error option \<Rightarrow> outcome" where
  "fx_reply status len body rerr =
     \<lparr>latency = 0, reply = Inr \<lparr>StatusCode = status, ContentLength = len, Body = 0,
                                 ReadAll = (body, rerr)\<rparr>\<rparr>"

section \<open>Properties\<close>

subsection \<open>The poll loop terminates\<close>

text \<open>Every iteration that goes round takes one outcome from the transport.\<close>

lemma makeRequest_consumes:
  "makeRequest req w = Some (r, w1) \<Longrightarrow> length (transport w1) < length (transport w)"
  by (auto simp: makeRequest_def Let_def split: option.splits list.splits sum.splits)

lemma transport_Sleep [simp]: "transport (Sleep d w) = transport w"
  by (simp add: Sleep_def)

lemma transport_Body_Close [simp]: "transport (Body_Close res w) = transport w"
  by (simp add: Body_Close_def)

lemma transport_errs_Add [simp]: "transport (errs_Add e w) = transport w"
  by (simp add: errs_Add_def)

termination poll
  by (relation "measure (\<lambda>(lib, s, ctx, start, sr, w). length (transport w))")
     (auto dest: makeRequest_consumes)

declare poll.simps [simp del]

subsection \<open>The state functions, field by field\<close>

lemma mb_errs_Add [simp]: "mb (errs_Add e w) = mb w"
  by (simp add: errs_Add_def)

lemma mb_Sleep [simp]: "mb (Sleep d w) = mb w"
  by (simp add: Sleep_def)

lemma mb_Body_Close [simp]: "mb (Body_Close res w) = mb w"
  by (simp add: Body_Close_def)

lemma errs_Sleep [simp]: "errs (Sleep d w) = errs w"
  by (simp add: Sleep_def)

lemma errs_Body_Close [simp]: "errs (Body_Close res w) = errs w"
  by (simp add: Body_Close_def)

lemma errs_errs_Add [simp]: "errs (errs_Add e w) = errs w @ [e]"
  by (simp add: errs_Add_def)

lemma clock_Sleep [simp]: "clock (Sleep d w) = clock w + d"
  by (simp add: Sleep_def)

lemma clock_Body_Close [simp]: "clock (Body_Close res w) = clock w"
  by (simp add: Body_Close_def)

lemma clock_errs_Add [simp]: "clock (errs_Add e w) = clock w"
  by (simp add: errs_Add_def)

lemma errs_Record [simp]: "errs (RecordSplunkLicenseIndexUsageDataPoint ts v ix w) = errs w"
  by (simp add: RecordSplunkLicenseIndexUsageDataPoint_def)

lemma makeRequest_mb: "makeRequest req w = Some (r, w1) \<Longrightarrow> mb w1 = mb w"
  by (auto simp: makeRequest_def Let_def split: option.splits list.splits sum.splits)

lemma poll_mb: "poll lib s ctx start sr w = Some (ex, w') \<Longrightarrow> mb w' = mb w"
proof (induction lib s ctx start sr w rule: poll.induct)
  case (1 lib s ctx start sr w)
  show ?case
  proof (cases "createRequest (splunkClient s) ctx sr")
    case (Inl err)
    with "1.prems" show ?thesis by (subst (asm) poll.simps) auto
  next
    case req: (Inr req)
    show ?thesis
    proof (cases "makeRequest (Some req) w")
      case None
      with "1.prems" req show ?thesis by (subst (asm) poll.simps) simp
    next
      case (Some a)
      then obtain r w1 where mr: "makeRequest (Some req) w = Some (r, w1)" by (cases a) simp
      then have m1: "mb w1 = mb w" by (rule makeRequest_mb)
      show ?thesis
      proof (cases r)
        case (Inl err)
        with "1.prems" req mr m1 show ?thesis by (subst (asm) poll.simps) auto
      next
        case res: (Inr res)
        obtain uerr sr1 where um: "unmarshallSearchReq lib res sr = (uerr, sr1)"
          by (cases "unmarshallSearchReq lib res sr")
        show ?thesis
        proof (cases uerr)
          case (Some err)
          with "1.prems" req mr m1 res um show ?thesis by (subst (asm) poll.simps) auto
        next
          case None
          let ?w2 = "Body_Close res w1"
          let ?w3 = "if Return sr1 = 204 then Sleep (2 * Second) ?w2 else ?w2"
          have m3: "mb ?w3 = mb w" using m1 by simp
          show ?thesis
          proof (cases "Return sr1 = 200 \<and> Jobid sr1 \<noteq> None")
            case True
            with "1.prems" req mr m1 res um None show ?thesis
              by (subst (asm) poll.simps) (auto simp: Let_def)
          next
            case notready: False
            show ?thesis
            proof (cases "clock ?w3 - start > MaxSearchWaitTime (conf s)")
              case True
              with "1.prems" req mr res um None notready m3 show ?thesis
                by (subst (asm) poll.simps) (auto simp: Let_def split: if_splits)
            next
              case False
              with "1.prems" req mr res um None notready
              have "poll lib s ctx start sr1 ?w3 = Some (ex, w')"
                by (subst (asm) poll.simps) (auto simp: Let_def split: if_splits)
              with "1.IH" req mr res um None notready False
              have "mb w' = mb ?w3" by (auto split: if_splits)
              with m3 show ?thesis by simp
            qed
          qed
        qed
      qed
    qed
  qed
qed

lemma makeRequest_reply:
  assumes "transport w = out # rest" and "reply out = Inr res"
  shows "\<exists>w1. makeRequest (Some req) w = Some (Inr (res\<lparr>Body := length (sent w)\<rparr>), w1) \<and>
           clock w1 = clock w + int (latency out) \<and> transport w1 = rest \<and>
           errs w1 = errs w \<and> mb w1 = mb w \<and> sent w1 = sent w @ [req]"
  using assms by (simp add: makeRequest_def)

lemma makeRequest_failure:
  assumes "transport w = out # rest" and "reply out = Inl err"
  shows "makeRequest (Some req) w =
           Some (Inl err, w\<lparr>clock := clock w + int (latency out), transport := rest,
                             sent := sent w @ [req]\<rparr>)"
  using assms by (simp add: makeRequest_def)

lemma poll_awaiting:
  assumes "createRequest (splunkClient s) ctx sr = Inr req"
    and "makeRequest (Some req) w = Some (Inr res, w1)"
    and "StatusCode res = 204" and "ContentLength res = 0"
  shows "poll lib s ctx start sr w =
     (if clock w1 + 2 * Second - start > MaxSearchWaitTime (conf s)
      then Some (Returned, errs_Add errMaxSearchWaitTimeExceeded (Sleep (2 * Second) (Body_Close res w1)))
      else poll lib s ctx start (sr\<lparr>Return := 204\<rparr>) (Sleep (2 * Second) (Body_Close res w1)))"
  by (subst poll.simps) (simp add: assms unmarshallSearchReq_def Let_def)

lemma poll_ready:
  assumes "createRequest (splunkClient s) ctx sr = Inr req"
    and "makeRequest (Some req) w = Some (Inr res, w1)"
    and "unmarshallSearchReq lib res sr = (None, sr1)"
    and "Return sr1 = 200" and "Jobid sr1 \<noteq> None"
  shows "poll lib s ctx start sr w = Some (Break sr1, Body_Close res w1)"
  by (subst poll.simps) (simp add: assms Let_def)

lemma poll_transport_failure:
  assumes "createRequest (splunkClient s) ctx sr = Inr req"
    and "transport w = out # rest" and "reply out = Inl err"
  shows "poll lib s ctx start sr w =
     Some (Returned, w\<lparr>clock := clock w + int (latency out), transport := rest,
                       sent := sent w @ [req], errs := errs w @ [err]\<rparr>)"
  by (subst poll.simps) (simp add: assms makeRequest_failure [OF assms(2,3)] errs_Add_def)

subsection \<open>Datapoints carry the timestamp they are given\<close>

lemma recordFields_mb:
  "\<exists>new. mb (recordFields lib now fs ix w) = mb w @ new \<and> list_all (\<lambda>d. dp_ts d = now) new"
proof (induction fs arbitrary: ix w)
  case Nil
  show ?case by simp
next
  case (Cons f fs)
  show ?case
  proof (cases "FieldName f = ''indexname''")
    case True
    then show ?thesis using Cons.IH [of "Value f" w] by simp
  next
    case notidx: False
    show ?thesis
    proof (cases "FieldName f = ''By''")
      case False
      then show ?thesis using notidx Cons.IH [of ix w] by simp
    next
      case True
      show ?thesis
      proof (cases "ParseFloat lib (Value f)")
        case (Inl err)
        then show ?thesis using notidx True Cons.IH [of ix "errs_Add err w"] by simp
      next
        case (Inr v)
        obtain new where
          "mb (recordFields lib now fs ix (RecordSplunkLicenseIndexUsageDataPoint now (int64 lib v) ix w))
             = mb (RecordSplunkLicenseIndexUsageDataPoint now (int64 lib v) ix w) @ new"
          "list_all (\<lambda>d. dp_ts d = now) new"
          using Cons.IH by blast
        then show ?thesis using notidx True Inr
          by (simp add: RecordSplunkLicenseIndexUsageDataPoint_def)
      qed
    qed
  qed
qed

lemma recordEntries_mb:
  "\<exists>new. mb (recordEntries lib now es w) = mb w @ new \<and> list_all (\<lambda>d. dp_ts d = now) new"
proof (induction es arbitrary: w)
  case Nil
  show ?case by simp
next
  case (Cons entry es)
  obtain new where
    "mb (recordEntries lib now es (RecordSplunkIndexerThroughputDataPoint now
            (times1000 lib (AvgKb (Content entry))) (Status (Content entry)) w))
       = mb (RecordSplunkIndexerThroughputDataPoint now
            (times1000 lib (AvgKb (Content entry))) (Status (Content entry)) w) @ new"
    "list_all (\<lambda>d. dp_ts d = now) new"
    using Cons.IH by blast
  then show ?case
    by (simp add: RecordSplunkIndexerThroughputDataPoint_def)
qed

lemma scrapeLicenseUsageByIndex_mb:
  assumes "scrapeLicenseUsageByIndex lib s ctx now w = Some w'"
  shows "\<exists>new. mb w' = mb w @ new \<and> list_all (\<lambda>d. dp_ts d = now) new"
proof (cases "SplunkLicenseIndexUsage_Enabled (conf s)")
  case False
  with assms show ?thesis by (simp add: scrapeLicenseUsageByIndex_def)
next
  case True
  let ?sr = "\<lparr>search = searchDict lib ''SplunkLicenseIndexUsageSearch'', Jobid = None,
                    Return = 0, Fields = []\<rparr>"
  from assms True obtain ex w1 where p: "poll lib s ctx (clock w) ?sr w = Some (ex, w1)"
    by (auto simp: scrapeLicenseUsageByIndex_def Let_def split: option.splits)
  then have m: "mb w1 = mb w" by (rule poll_mb)
  show ?thesis
  proof (cases ex)
    case Returned
    with assms True p m show ?thesis by (simp add: scrapeLicenseUsageByIndex_def)
  next
    case (Break sr1)
    with assms True p have "w' = recordFields lib now (Fields sr1) [] w1"
      by (simp add: scrapeLicenseUsageByIndex_def)
    with m recordFields_mb [of lib now "Fields sr1" "[]" w1] show ?thesis by simp
  qed
qed

lemma scrapeIndexThroughput_mb:
  assumes "scrapeIndexThroughput lib s ctx now w = Some w'"
  shows "\<exists>new. mb w' = mb w @ new \<and> list_all (\<lambda>d. dp_ts d = now) new"
proof (cases "SplunkIndexerThroughput_Enabled (conf s)")
  case False
  with assms show ?thesis by (simp add: scrapeIndexThroughput_def)
next
  case True
  show ?thesis
  proof (cases "createAPIRequest (splunkClient s) ctx (apiDict lib ''SplunkIndexerThroughput'')")
    case (Inl err)
    with assms True show ?thesis
      by (simp add: scrapeIndexThroughput_def makeRequest_def)
  next
    case (Inr req)
    with assms True obtain r w2 where mr: "makeRequest (Some req) w = Some (r, w2)"
      by (auto simp: scrapeIndexThroughput_def split: option.splits)
    then have m: "mb w2 = mb w" by (rule makeRequest_mb)
    show ?thesis
    proof (cases r)
      case (Inl err)
      with assms True Inr mr m show ?thesis
        by (auto simp: scrapeIndexThroughput_def)
    next
      case res: (Inr res)
      obtain body rerr where ra: "ReadAll res = (body, rerr)" by (cases "ReadAll res")
      obtain derr it1 where ju: "json_Unmarshal lib body \<lparr>Entries = []\<rparr> = (derr, it1)"
        by (cases "json_Unmarshal lib body \<lparr>Entries = []\<rparr>")
      let ?w3 = "case rerr of None \<Rightarrow> w2 | Some err \<Rightarrow> errs_Add err w2"
      let ?w4 = "case derr of None \<Rightarrow> ?w3 | Some err \<Rightarrow> errs_Add err ?w3"
      have m4: "mb ?w4 = mb w" using m by (simp split: option.splits)
      have "w' = Body_Close res (recordEntries lib now (Entries it1) ?w4)"
        using assms True Inr mr res ra ju by (auto simp: scrapeIndexThroughput_def Let_def)
      with m4 recordEntries_mb [of lib now "Entries it1" ?w4] show ?thesis by simp
    qed
  qed
qed

subsection \<open>The field mapping\<close>

lemma dim_from_0 [simp]: "dim_from ix fs 0 = ix"
  by (simp add: dim_from_def)

lemma dim_from_Suc:
  "dim_from ix (f # fs) (Suc i) =
     dim_from (if FieldName f = ''indexname'' then Value f else ix) fs i"
  by (simp add: dim_from_def split: list.splits)

lemma dp_at_0:
  "dp_at lib now ix (f # fs) 0 =
     (if FieldName f = ''By''
      then (case ParseFloat lib (Value f) of
              Inl err \<Rightarrow> None
            | Inr v \<Rightarrow> Some \<lparr>dp_metric = SplunkLicenseIndexUsage, dp_ts = now,
                              dp_value = IntVal (int64 lib v), dp_attr = ix\<rparr>)
      else None)"
  by (simp add: dp_at_def split: sum.splits)

lemma dp_at_Suc:
  "dp_at lib now ix (f # fs) (Suc i) =
     dp_at lib now (if FieldName f = ''indexname'' then Value f else ix) fs i"
  by (simp only: dp_at_def dim_from_Suc nth_Cons_Suc)

lemma map_filter_upt_Suc:
  "List.map_filter g [0..<Suc n] =
     (case g 0 of None \<Rightarrow> [] | Some y \<Rightarrow> [y]) @ List.map_filter (\<lambda>i. g (Suc i)) [0..<n]"
proof -
  have "[0..<Suc n] = 0 # map Suc [0..<n]"
    by (simp only: upt_conv_Cons zero_less_Suc map_Suc_upt) 
  then show ?thesis
    by (simp add: List.map_filter_def comp_def filter_map split: option.splits)
qed

lemma recordFields_mb_from:
  "mb (recordFields lib now fs ix w) = mb w @ List.map_filter (dp_at lib now ix fs) [0..<length fs]"
proof (induction fs arbitrary: ix w)
  case Nil
  show ?case by (simp add: List.map_filter_def)
next
  case (Cons f fs)
  have step: "List.map_filter (dp_at lib now ix (f # fs)) [0..<length (f # fs)] =
      (case dp_at lib now ix (f # fs) 0 of None \<Rightarrow> [] | Some y \<Rightarrow> [y]) @
      List.map_filter (dp_at lib now (if FieldName f = ''indexname'' then Value f else ix) fs)
        [0..<length fs]"
    by (simp only: list.size map_filter_upt_Suc dp_at_Suc Suc_eq_plus1 [symmetric] add_Suc_right add_0_right)
  show ?case
    unfolding step
    by (simp add: Cons.IH dp_at_0 RecordSplunkLicenseIndexUsageDataPoint_def split: sum.splits)
qed

lemma recordFields_errs:
  "errs (recordFields lib now fs ix w) = errs w @ conversion_failures lib fs"
  by (induction fs arbitrary: ix w)
     (simp_all add: conversion_failures_def List.map_filter_simps errs_Add_def split: sum.splits)

subsection \<open>Polls that stay pending\<close>

lemma poll_times_out:
  assumes cr: "\<forall>sr. \<not> isl (createRequest (splunkClient s) ctx sr)"
  shows "list_all is204 rs \<Longrightarrow> rs \<noteq> [] \<Longrightarrow> transport w = rs @ rest \<Longrightarrow>
         MaxSearchWaitTime (conf s) < clock w - start + elapsed rs \<Longrightarrow>
         \<exists>w'. poll lib s ctx start sr w = Some (Returned, w') \<and>
              errs w' = errs w @ [errMaxSearchWaitTimeExceeded] \<and> mb w' = mb w"
proof (induction rs arbitrary: w sr)
  case Nil
  then show ?case by simp
next
  case (Cons out rs)
  from cr have "\<not> isl (createRequest (splunkClient s) ctx sr)" by blast
  then obtain req where req: "createRequest (splunkClient s) ctx sr = Inr req"
    by (cases "createRequest (splunkClient s) ctx sr") simp_all
  from Cons.prems(1) obtain res where res: "reply out = Inr res" "StatusCode res = 204" "ContentLength res = 0"
    by (auto simp: is204_def split: sum.splits)
  from Cons.prems(3) have tr: "transport w = out # (rs @ rest)" by simp
  from makeRequest_reply [OF tr res(1), of req] obtain w1 where
    w1: "makeRequest (Some req) w = Some (Inr (res\<lparr>Body := length (sent w)\<rparr>), w1)"
        "clock w1 = clock w + int (latency out)" "transport w1 = rs @ rest"
        "errs w1 = errs w" "mb w1 = mb w"
    by blast
  let ?res = "res\<lparr>Body := length (sent w)\<rparr>"
  let ?w3 = "Sleep (2 * Second) (Body_Close ?res w1)"
  have step: "poll lib s ctx start sr w =
     (if clock w1 + 2 * Second - start > MaxSearchWaitTime (conf s)
      then Some (Returned, errs_Add errMaxSearchWaitTimeExceeded ?w3)
      else poll lib s ctx start (sr\<lparr>Return := 204\<rparr>) ?w3)"
    using res by (intro poll_awaiting [OF req w1(1)]) simp_all
  show ?case
  proof (cases "clock w1 + 2 * Second - start > MaxSearchWaitTime (conf s)")
    case True
    with step w1 show ?thesis by simp
  next
    case False
    have el: "elapsed (out # rs) = int (latency out) + 2 * Second + elapsed rs"
      by (simp add: elapsed_def)
    have ne: "rs \<noteq> []"
    proof
      assume "rs = []"
      with Cons.prems(4) False w1(2) show False by (simp add: elapsed_def)
    qed
    have "\<exists>w'. poll lib s ctx start (sr\<lparr>Return := 204\<rparr>) ?w3 = Some (Returned, w') \<and>
              errs w' = errs ?w3 @ [errMaxSearchWaitTimeExceeded] \<and> mb w' = mb ?w3"
    proof (rule Cons.IH [OF _ ne])
      show "list_all is204 rs" using Cons.prems(1) by simp
      show "transport ?w3 = rs @ rest" using w1(3) by simp
      show "MaxSearchWaitTime (conf s) < clock ?w3 - start + elapsed rs"
        using Cons.prems(4) w1(2) el by simp
    qed
    with step False w1 show ?thesis by simp
  qed
qed

subsection \<open>Decoded results\<close>

lemma recordFields_recognised:
  "recordFields lib now (filter (\<lambda>f. FieldName f = ''indexname'' \<or> FieldName f = ''By'') fs) ix w
     = recordFields lib now fs ix w"
  by (induction fs arbitrary: ix w) (simp_all split: sum.splits)

lemma unmarshallSearchReq_decoded:
  assumes "ContentLength res \<noteq> 0" and "ReadAll res = (body, None)"
    and "xml_Unmarshal lib body (sr\<lparr>Return := StatusCode res\<rparr>) = (None, sr2)"
  shows "unmarshallSearchReq lib res sr = (None, sr2)"
  using assms by (simp add: unmarshallSearchReq_def)

subsection \<open>Unfolding the examples\<close>

lemmas fx_defs = fx_scraper_def fx_client_def fx_lib_def fx_world_def fx_reply_def fx_ctx_def
  xml_results_def json_entry_def json_mistyped_def

lemmas run_defs = scrape_def scrapeLicenseUsageByIndex_def scrapeIndexThroughput_def poll.simps
  makeRequest_def unmarshallSearchReq_def errs_Add_def Body_Close_def Sleep_def Second_def
  Emit_def Combine_def RecordSplunkLicenseIndexUsageDataPoint_def
  RecordSplunkIndexerThroughputDataPoint_def

section \<open>The claims\<close>

text \<open>
  C1. The claim: on every exit path of one poll iteration the body of the response
  that \<^verbatim>\<open>makeRequest\<close> returned is closed before the function returns or the loop goes
  on. On the path of a decode failure it is not: the poller returns at line 100 and
  never reaches the \<^verbatim>\<open>Close\<close> of line 102. Here the first poll is answered 200 with
  a truncated document; the task ends with the decode failure in the accumulator and
  body 0 still open. On the success path (third conjunct) the body is closed.
\<close>

theorem decode_failure_leaves_body_open:
  "map_option open_bodies
     (scrapeLicenseUsageByIndex fx_lib (fx_scraper True False 60000000000) fx_ctx 0
        (fx_world [fx_reply 200 9 ''<response'' None])) = Some {0} \<and>
   map_option errs
     (scrapeLicenseUsageByIndex fx_lib (fx_scraper True False 60000000000) fx_ctx 0
        (fx_world [fx_reply 200 9 ''<response'' None]))
     = Some [Errorf ''Failed to unmarshall response: '' (ExtError ''XML syntax error'')] \<and>
   map_option open_bodies
     (scrapeLicenseUsageByIndex fx_lib (fx_scraper True False 60000000000) fx_ctx 0
        (fx_world [fx_reply 200 221 xml_results None])) = Some {}"
  by (simp add: fx_defs run_defs)

text \<open>
  C2. The claim: in the endpoint fetcher a failure of request construction, request
  execution, body reading or decoding is recorded and ends the task at once, with no
  datapoint. Only a failed \<^verbatim>\<open>makeRequest\<close> ends the task (line 178); after the other
  three failures the function goes on. Here the response announces 100 bytes and the
  connection ends after the 56 bytes of a complete document: the read failure is
  recorded, and the bytes read are decoded and their entry recorded all the same.
\<close>

theorem read_failure_does_not_end_task:
  "map_option errs
     (scrapeIndexThroughput fx_lib (fx_scraper False True 60000000000) fx_ctx 0
        (fx_world [fx_reply 200 100 json_entry (Some (ExtError ''unexpected EOF''))]))
     = Some [ExtError ''unexpected EOF''] \<and>
   map_option mb
     (scrapeIndexThroughput fx_lib (fx_scraper False True 60000000000) fx_ctx 0
        (fx_world [fx_reply 200 100 json_entry (Some (ExtError ''unexpected EOF''))]))
     = Some [\<lparr>dp_metric = SplunkIndexerThroughput, dp_ts = 0, dp_value = DoubleVal 2000,
                dp_attr = ''ok''\<rparr>]"
  by (simp add: fx_defs run_defs)

text \<open>
  The return is missing after line 189 as well. A well-formed document whose status
  has the wrong type is no parsing failure, but the decoder reports the type error
  after it has filled in the rest of the entry, and the entry is recorded beside the
  error.
\<close>

lemma mistyped_field_still_recorded:
  "map_option errs
     (scrapeIndexThroughput fx_lib (fx_scraper False True 60000000000) fx_ctx 0
        (fx_world [fx_reply 200 53 json_mistyped None]))
     = Some [ExtError ''json: cannot unmarshal number into Go struct field of type string''] \<and>
   map_option mb
     (scrapeIndexThroughput fx_lib (fx_scraper False True 60000000000) fx_ctx 0
        (fx_world [fx_reply 200 53 json_mistyped None]))
     = Some [\<lparr>dp_metric = SplunkIndexerThroughput, dp_ts = 0, dp_value = DoubleVal 2000,
                dp_attr = []\<rparr>]"
  by (simp add: fx_defs run_defs)

text \<open>
  C3. When every poll of the job poller is answered 204 (no body) until the configured
  maximum search wait time has elapsed, the task adds exactly
  \<^verbatim>\<open>errMaxSearchWaitTimeExceeded\<close> to the accumulator and records no datapoint. The
  polls \<open>rs\<close> are the first outcomes of the transport; with their sleeps they last
  longer than the maximum wait. The timeout failure is a value of its own: it is
  neither an error made outside the file nor a wrapped one.
\<close>

theorem poll_never_ready_times_out:
  assumes "SplunkLicenseIndexUsage_Enabled (conf s)"
    and "\<forall>sr. \<not> isl (createRequest (splunkClient s) ctx sr)"
    and "transport w = rs @ rest" and "rs \<noteq> []" and "list_all is204 rs"
    and "MaxSearchWaitTime (conf s) < elapsed rs"
  shows "\<exists>w'. scrapeLicenseUsageByIndex lib s ctx now w = Some w' \<and>
              errs w' = errs w @ [errMaxSearchWaitTimeExceeded] \<and> mb w' = mb w \<and>
              (\<forall>m. errMaxSearchWaitTimeExceeded \<noteq> ExtError m) \<and>
              (\<forall>p e. errMaxSearchWaitTimeExceeded \<noteq> Errorf p e)"
proof -
  let ?sr = "\<lparr>search = searchDict lib ''SplunkLicenseIndexUsageSearch'', Jobid = None,
                    Return = 0, Fields = []\<rparr>"
  from assms(6) have "MaxSearchWaitTime (conf s) < clock w - clock w + elapsed rs" by simp
  from poll_times_out [OF assms(2) assms(5) assms(4) assms(3) this, of lib ?sr]
  obtain w' where "poll lib s ctx (clock w) ?sr w = Some (Returned, w')"
     "errs w' = errs w @ [errMaxSearchWaitTimeExceeded]" "mb w' = mb w"
    by blast
  with assms(1) show ?thesis by (simp add: scrapeLicenseUsageByIndex_def)
qed

theorem poll_never_ready_times_out_witness:
  "SplunkLicenseIndexUsage_Enabled (conf (fx_scraper True False 100000000)) \<and>
   list_all is204 [fx_reply 204 0 [] None] \<and>
   MaxSearchWaitTime (conf (fx_scraper True False 100000000)) < elapsed [fx_reply 204 0 [] None] \<and>
   (\<exists>w'. scrapeLicenseUsageByIndex fx_lib (fx_scraper True False 100000000) fx_ctx 0
            (fx_world [fx_reply 204 0 [] None, fx_reply 204 0 [] None]) = Some w' \<and>
         errs w' = [errMaxSearchWaitTimeExceeded] \<and> mb w' = [])"
proof -
  have h1: "SplunkLicenseIndexUsage_Enabled (conf (fx_scraper True False 100000000))"
    by (simp add: fx_scraper_def)
  have h2: "\<forall>sr. \<not> isl (createRequest (splunkClient (fx_scraper True False 100000000)) fx_ctx sr)"
    by (simp add: fx_scraper_def fx_client_def)
  have h3: "transport (fx_world [fx_reply 204 0 [] None, fx_reply 204 0 [] None] :: int world)
              = [fx_reply 204 0 [] None] @ [fx_reply 204 0 [] None]"
    by (simp add: fx_world_def)
  have h4: "[fx_reply 204 0 [] None] \<noteq> []" by simp
  have h5: "list_all is204 [fx_reply 204 0 [] None]"
    by (simp add: is204_def fx_reply_def)
  have h6: "MaxSearchWaitTime (conf (fx_scraper True False 100000000)) < elapsed [fx_reply 204 0 [] None]"
    by (simp add: fx_scraper_def elapsed_def fx_reply_def Second_def)
  from poll_never_ready_times_out [OF h1 h2 h3 h4 h5 h6, of fx_lib 0] h1 h5 h6 show ?thesis
    by (simp add: fx_world_def)
qed

text \<open>
  C4. A body fails structural parsing when the decoder rejects it as a document: the
  decoder returns an error, and the JSON decoder, which validates the whole input
  before it stores anything, leaves the record as it was (the XML decoder may have
  stored what came before the error). On the job path, at any poll (any \<open>sr\<close>, \<open>w\<close>
  and \<open>start\<close>), such a body makes the loop return with the wrapped decode failure
  added and no datapoint recorded, and a loop that returns ends the task in that very
  state. On the endpoint path the decode failure is added and no datapoint recorded.
  Whatever state the first task ends in, the cycle goes on with the second task from
  that state and emits what it records.
\<close>

theorem unparseable_body_is_decode_failure:
  "(createRequest (splunkClient s) ctx sr = Inr req \<and> transport w = out # rest \<and>
    reply out = Inr res \<and> ContentLength res \<noteq> 0 \<and> ReadAll res = (body, None) \<and>
    xml_Unmarshal lib body (sr\<lparr>Return := StatusCode res\<rparr>) = (Some err, sr2) \<longrightarrow>
      (\<exists>w'. poll lib s ctx start sr w = Some (Returned, w') \<and>
            errs w' = errs w @ [Errorf ''Failed to unmarshall response: '' err] \<and>
            mb w' = mb w)) \<and>
   (SplunkLicenseIndexUsage_Enabled (conf s) \<and>
    poll lib s ctx (clock w)
      \<lparr>search = searchDict lib ''SplunkLicenseIndexUsageSearch'', Jobid = None,
         Return = 0, Fields = []\<rparr> w = Some (Returned, w1) \<longrightarrow>
      scrapeLicenseUsageByIndex lib s ctx now w = Some w1) \<and>
   (SplunkIndexerThroughput_Enabled (conf s) \<and>
    createAPIRequest (splunkClient s) ctx (apiDict lib ''SplunkIndexerThroughput'') = Inr req \<and>
    transport w = out # rest \<and> reply out = Inr res \<and> ReadAll res = (body, None) \<and>
    json_Unmarshal lib body \<lparr>Entries = []\<rparr> = (Some err, \<lparr>Entries = []\<rparr>) \<longrightarrow>
      map_option errs (scrapeIndexThroughput lib s ctx now w) = Some (errs w @ [err]) \<and>
      map_option mb (scrapeIndexThroughput lib s ctx now w) = Some (mb w)) \<and>
   (scrapeLicenseUsageByIndex lib s ctx (clock w) (w\<lparr>errs := []\<rparr>) = Some w1 \<longrightarrow>
      scrape lib s ctx w =
        (case scrapeIndexThroughput lib s ctx (clock w) w1 of
           None \<Rightarrow> None
         | Some w2 \<Rightarrow> Some ((mb w2, Combine (errs w2)), w2\<lparr>mb := []\<rparr>)))"
proof (intro conjI impI)
  assume a: "createRequest (splunkClient s) ctx sr = Inr req \<and> transport w = out # rest \<and>
    reply out = Inr res \<and> ContentLength res \<noteq> 0 \<and> ReadAll res = (body, None) \<and>
    xml_Unmarshal lib body (sr\<lparr>Return := StatusCode res\<rparr>) = (Some err, sr2)"
  then have tr: "transport w = out # rest" and rp: "reply out = Inr res" by simp_all
  from makeRequest_reply [OF tr rp, of req] obtain w1 where
    w1: "makeRequest (Some req) w = Some (Inr (res\<lparr>Body := length (sent w)\<rparr>), w1)"
        "errs w1 = errs w" "mb w1 = mb w"
    by blast
  have um: "unmarshallSearchReq lib (res\<lparr>Body := length (sent w)\<rparr>) sr
              = (Some (Errorf ''Failed to unmarshall response: '' err), sr2)"
    using a by (simp add: unmarshallSearchReq_def)
  have "poll lib s ctx start sr w
          = Some (Returned, errs_Add (Errorf ''Failed to unmarshall response: '' err) w1)"
    using a w1(1) um by (subst poll.simps) simp
  with w1 show "\<exists>w'. poll lib s ctx start sr w = Some (Returned, w') \<and>
            errs w' = errs w @ [Errorf ''Failed to unmarshall response: '' err] \<and>
            mb w' = mb w"
    by simp
next
  assume "SplunkLicenseIndexUsage_Enabled (conf s) \<and>
    poll lib s ctx (clock w)
      \<lparr>search = searchDict lib ''SplunkLicenseIndexUsageSearch'', Jobid = None,
         Return = 0, Fields = []\<rparr> w = Some (Returned, w1)"
  then show "scrapeLicenseUsageByIndex lib s ctx now w = Some w1"
    by (simp add: scrapeLicenseUsageByIndex_def)
next
  assume a: "SplunkIndexerThroughput_Enabled (conf s) \<and>
    createAPIRequest (splunkClient s) ctx (apiDict lib ''SplunkIndexerThroughput'') = Inr req \<and>
    transport w = out # rest \<and> reply out = Inr res \<and> ReadAll res = (body, None) \<and>
    json_Unmarshal lib body \<lparr>Entries = []\<rparr> = (Some err, \<lparr>Entries = []\<rparr>)"
  then have tr: "transport w = out # rest" and rp: "reply out = Inr res" by simp_all
  from makeRequest_reply [OF tr rp, of req] obtain w1 where
    w1: "makeRequest (Some req) w = Some (Inr (res\<lparr>Body := length (sent w)\<rparr>), w1)"
        "errs w1 = errs w" "mb w1 = mb w"
    by blast
  have run: "scrapeIndexThroughput lib s ctx now w
               = Some (Body_Close (res\<lparr>Body := length (sent w)\<rparr>) (errs_Add err w1))"
    using a w1(1) by (simp add: scrapeIndexThroughput_def Let_def)
  show "map_option errs (scrapeIndexThroughput lib s ctx now w) = Some (errs w @ [err])"
    using run w1 by simp
  show "map_option mb (scrapeIndexThroughput lib s ctx now w) = Some (mb w)"
    using run w1 by simp
next
  assume "scrapeLicenseUsageByIndex lib s ctx (clock w) (w\<lparr>errs := []\<rparr>) = Some w1"
  then show "scrape lib s ctx w =
        (case scrapeIndexThroughput lib s ctx (clock w) w1 of
           None \<Rightarrow> None
         | Some w2 \<Rightarrow> Some ((mb w2, Combine (errs w2)), w2\<lparr>mb := []\<rparr>))"
    by (simp add: scrape_def Emit_def Let_def split: option.splits)
qed

theorem unparseable_body_is_decode_failure_witness:
  "xml_Unmarshal fx_lib ''<response''
       \<lparr>search = ''search=Q'', Jobid = None, Return = 200, Fields = []\<rparr>
     = (Some (ExtError ''XML syntax error''),
        \<lparr>search = ''search=Q'', Jobid = None, Return = 200, Fields = []\<rparr>) \<and>
   map_option errs
     (scrapeLicenseUsageByIndex fx_lib (fx_scraper True True 60000000000) fx_ctx 0
        (fx_world [fx_reply 200 9 ''<response'' None, fx_reply 200 56 json_entry None]))
     = Some [Errorf ''Failed to unmarshall response: '' (ExtError ''XML syntax error'')] \<and>
   map_option mb
     (scrapeLicenseUsageByIndex fx_lib (fx_scraper True True 60000000000) fx_ctx 0
        (fx_world [fx_reply 200 9 ''<response'' None, fx_reply 200 56 json_entry None]))
     = Some [] \<and>
   map_option fst
     (scrape fx_lib (fx_scraper True True 60000000000) fx_ctx
        (fx_world [fx_reply 200 9 ''<response'' None, fx_reply 200 56 json_entry None]))
     = Some ([\<lparr>dp_metric = SplunkIndexerThroughput, dp_ts = 0, dp_value = DoubleVal 2000,
                 dp_attr = ''ok''\<rparr>],
             Some (Combined [Errorf ''Failed to unmarshall response: ''
                               (ExtError ''XML syntax error'')])) \<and>
   json_Unmarshal fx_lib ''<html>'' \<lparr>Entries = []\<rparr>
     = (Some (ExtError ''invalid character''), \<lparr>Entries = []\<rparr>) \<and>
   map_option errs
     (scrapeIndexThroughput fx_lib (fx_scraper True True 60000000000) fx_ctx 0
        (fx_world [fx_reply 200 6 ''<html>'' None]))
     = Some [ExtError ''invalid character''] \<and>
   map_option mb
     (scrapeIndexThroughput fx_lib (fx_scraper True True 60000000000) fx_ctx 0
        (fx_world [fx_reply 200 6 ''<html>'' None]))
     = Some []"
proof -
  let ?s = "fx_scraper True True 60000000000"
  let ?sr = "\<lparr>search = ''search=Q'', Jobid = None, Return = 0, Fields = []\<rparr>"
  let ?bad = "fx_reply 200 9 ''<response'' None"
  let ?good = "fx_reply 200 56 json_entry None"
  let ?w = "fx_world [?bad, ?good] :: int world"
  let ?req = "\<lparr>req_ctx = fx_ctx, req_method = ''POST'', req_url = ''/services/search/jobs/'',
               req_data = ''search=Q''\<rparr>"
  let ?res = "\<lparr>StatusCode = 200, ContentLength = 9, Body = 0, ReadAll = (''<response'', None)\<rparr>"
  let ?E = "Errorf ''Failed to unmarshall response: '' (ExtError ''XML syntax error'')"
  let ?w1 = "\<lparr>clock = 0, transport = [?good], sent = [?req], open_bodies = {0}, errs = [?E],
              mb = []\<rparr> :: int world"
  txt \<open>The job path: the first poll is answered with a truncated document.\<close>
  have xu: "xml_Unmarshal fx_lib ''<response'' (?sr\<lparr>Return := StatusCode ?res\<rparr>)
              = (Some (ExtError ''XML syntax error''), ?sr\<lparr>Return := 200\<rparr>)"
    by (simp add: fx_lib_def xml_results_def)
  have h1: "createRequest (splunkClient ?s) fx_ctx ?sr = Inr ?req \<and> transport ?w = ?bad # [?good] \<and>
    reply ?bad = Inr ?res \<and> ContentLength ?res \<noteq> 0 \<and> ReadAll ?res = (''<response'', None) \<and>
    xml_Unmarshal fx_lib ''<response'' (?sr\<lparr>Return := StatusCode ?res\<rparr>)
      = (Some (ExtError ''XML syntax error''), ?sr\<lparr>Return := 200\<rparr>)"
    using xu by (simp add: fx_scraper_def fx_client_def fx_world_def fx_reply_def)
  from unparseable_body_is_decode_failure
         [of ?s fx_ctx ?sr ?req ?w ?bad "[?good]" ?res "''<response''" fx_lib
             "ExtError ''XML syntax error''" "?sr\<lparr>Return := 200\<rparr>" 0] h1
  obtain w' where w': "poll fx_lib ?s fx_ctx 0 ?sr ?w = Some (Returned, w')"
      "errs w' = errs ?w @ [?E]" "mb w' = mb ?w"
    by blast
  have h2: "SplunkLicenseIndexUsage_Enabled (conf ?s) \<and>
      poll fx_lib ?s fx_ctx (clock ?w)
        \<lparr>search = searchDict fx_lib ''SplunkLicenseIndexUsageSearch'', Jobid = None,
           Return = 0, Fields = []\<rparr> ?w = Some (Returned, w')"
    using w'(1) by (simp add: fx_scraper_def fx_lib_def fx_world_def)
  from unparseable_body_is_decode_failure
         [of ?s fx_ctx ?sr ?req ?w ?bad "[?good]" ?res "''<response''" fx_lib
             "ExtError ''XML syntax error''" "?sr\<lparr>Return := 200\<rparr>" 0 w' 0] h2
  have task: "scrapeLicenseUsageByIndex fx_lib ?s fx_ctx 0 ?w = Some w'"
    by blast
  txt \<open>The sibling runs from the state the failed task left, and records its entry.\<close>
  have w1: "w' = ?w1"
    using task by (simp add: fx_defs run_defs)
  have h4: "scrapeLicenseUsageByIndex fx_lib ?s fx_ctx (clock ?w) (?w\<lparr>errs := []\<rparr>) = Some ?w1"
    using task w1 by (simp add: fx_world_def)
  from unparseable_body_is_decode_failure
         [of ?s fx_ctx ?sr ?req ?w ?bad "[?good]" ?res "''<response''" fx_lib
             "ExtError ''XML syntax error''" "?sr\<lparr>Return := 200\<rparr>" 0 ?w1 0] h4
  have "scrape fx_lib ?s fx_ctx ?w =
        (case scrapeIndexThroughput fx_lib ?s fx_ctx (clock ?w) ?w1 of
           None \<Rightarrow> None
         | Some w2 \<Rightarrow> Some ((mb w2, Combine (errs w2)), w2\<lparr>mb := []\<rparr>))"
    by blast
  then have cycle: "map_option fst (scrape fx_lib ?s fx_ctx ?w)
     = Some ([\<lparr>dp_metric = SplunkIndexerThroughput, dp_ts = 0, dp_value = DoubleVal 2000,
                 dp_attr = ''ok''\<rparr>], Some (Combined [?E]))"
    by (simp add: fx_defs run_defs)
  txt \<open>The endpoint path: the body is an HTML page.\<close>
  let ?html = "fx_reply 200 6 ''<html>'' None"
  let ?v = "fx_world [?html] :: int world"
  let ?areq = "\<lparr>req_ctx = fx_ctx, req_method = ''GET'',
               req_url = ''/services/server/introspection/indexer?output_mode=json'',
               req_data = []\<rparr>"
  let ?ares = "\<lparr>StatusCode = 200, ContentLength = 6, Body = 0, ReadAll = (''<html>'', None)\<rparr>"
  have ju: "json_Unmarshal fx_lib ''<html>'' \<lparr>Entries = []\<rparr>
     = (Some (ExtError ''invalid character''), \<lparr>Entries = []\<rparr>)"
    by (simp add: fx_lib_def json_entry_def json_mistyped_def)
  have h3: "SplunkIndexerThroughput_Enabled (conf ?s) \<and>
    createAPIRequest (splunkClient ?s) fx_ctx (apiDict fx_lib ''SplunkIndexerThroughput'') = Inr ?areq \<and>
    transport ?v = ?html # [] \<and> reply ?html = Inr ?ares \<and> ReadAll ?ares = (''<html>'', None) \<and>
    json_Unmarshal fx_lib ''<html>'' \<lparr>Entries = []\<rparr>
      = (Some (ExtError ''invalid character''), \<lparr>Entries = []\<rparr>)"
    using ju by (simp add: fx_scraper_def fx_client_def fx_lib_def fx_world_def fx_reply_def)
  from unparseable_body_is_decode_failure
         [of ?s fx_ctx _ ?areq ?v ?html "[]" ?ares "''<html>''" fx_lib
             "ExtError ''invalid character''" _ _ _ 0] h3
  have ep: "map_option errs (scrapeIndexThroughput fx_lib ?s fx_ctx 0 ?v)
              = Some (errs ?v @ [ExtError ''invalid character'']) \<and>
            map_option mb (scrapeIndexThroughput fx_lib ?s fx_ctx 0 ?v) = Some (mb ?v)"
    by blast
  from xu task w'(2,3) cycle ju ep show ?thesis
    by (simp add: fx_world_def)
qed

text \<open>
  Against C5 as it is worded (a task whose context is cancelled during the sleep
  aborts promptly with a cancellation failure): the sleep of the poller is
  \<^verbatim>\<open>time.Sleep\<close>, which knows no context. Here the first
  poll is answered 204 at time 0, the context is cancelled half a second later, in the
  middle of the sleep, and the maximum wait is one second: the task returns when the
  two seconds are over, with the timeout failure and no cancellation failure.
\<close>

theorem sleep_outlasts_cancellation:
  "canceledAt \<lparr>canceledAt = Some 500000000\<rparr> = Some 500000000 \<and>
   map_option clock
     (scrapeLicenseUsageByIndex fx_lib (fx_scraper True False 1000000000)
        \<lparr>canceledAt = Some 500000000\<rparr> 0
        (fx_world [fx_reply 204 0 [] None, fx_reply 200 221 xml_results None]))
     = Some 2000000000 \<and>
   map_option errs
     (scrapeLicenseUsageByIndex fx_lib (fx_scraper True False 1000000000)
        \<lparr>canceledAt = Some 500000000\<rparr> 0
        (fx_world [fx_reply 204 0 [] None, fx_reply 200 221 xml_results None]))
     = Some [errMaxSearchWaitTimeExceeded]"
  by (simp add: fx_defs run_defs)

text \<open>
  C5, as the code has it. The context reaches the transport through the request and
  nothing else in the poller reads it. When the transport fails a poll request (as it
  does, with the cancellation failure, for a request whose context is cancelled), the
  task adds that failure and returns at once: no sleep, no further request. The sleep
  after a pending poll runs its two seconds whatever the context; when it ends beyond
  the maximum wait the task returns the timeout failure.
\<close>

theorem cancellation_surfaces_at_requests_only:
  "(createRequest (splunkClient s) ctx sr = Inr req \<and> transport w = out # rest \<and>
      reply out = Inl err \<longrightarrow>
    poll lib s ctx start sr w =
      Some (Returned, w\<lparr>clock := clock w + int (latency out), transport := rest,
                        sent := sent w @ [req], errs := errs w @ [err]\<rparr>)) \<and>
   (createRequest (splunkClient s) ctx sr = Inr req \<and> transport w = out # rest \<and>
      is204 out \<and> MaxSearchWaitTime (conf s) < clock w + int (latency out) + 2 * Second - start \<longrightarrow>
    map_option (clock \<circ> snd) (poll lib s ctx start sr w)
      = Some (clock w + int (latency out) + 2 * Second) \<and>
    map_option (errs \<circ> snd) (poll lib s ctx start sr w)
      = Some (errs w @ [errMaxSearchWaitTimeExceeded]) \<and>
    map_option (sent \<circ> snd) (poll lib s ctx start sr w) = Some (sent w @ [req]))"
proof (intro conjI impI)
  assume a: "createRequest (splunkClient s) ctx sr = Inr req \<and> transport w = out # rest \<and>
      reply out = Inl err"
  then show "poll lib s ctx start sr w =
      Some (Returned, w\<lparr>clock := clock w + int (latency out), transport := rest,
                        sent := sent w @ [req], errs := errs w @ [err]\<rparr>)"
    by (intro poll_transport_failure) simp_all
next
  assume a: "createRequest (splunkClient s) ctx sr = Inr req \<and> transport w = out # rest \<and>
      is204 out \<and> MaxSearchWaitTime (conf s) < clock w + int (latency out) + 2 * Second - start"
  then obtain res where res: "reply out = Inr res" "StatusCode res = 204" "ContentLength res = 0"
    by (auto simp: is204_def split: sum.splits)
  from a have tr: "transport w = out # rest" by simp
  from makeRequest_reply [OF tr res(1), of req] obtain w1 where
    w1: "makeRequest (Some req) w = Some (Inr (res\<lparr>Body := length (sent w)\<rparr>), w1)"
        "clock w1 = clock w + int (latency out)" "errs w1 = errs w" "sent w1 = sent w @ [req]"
    by blast
  let ?res = "res\<lparr>Body := length (sent w)\<rparr>"
  have "poll lib s ctx start sr w =
     (if clock w1 + 2 * Second - start > MaxSearchWaitTime (conf s)
      then Some (Returned, errs_Add errMaxSearchWaitTimeExceeded (Sleep (2 * Second) (Body_Close ?res w1)))
      else poll lib s ctx start (sr\<lparr>Return := 204\<rparr>) (Sleep (2 * Second) (Body_Close ?res w1)))"
    using a res by (intro poll_awaiting [OF _ w1(1)]) simp_all
  with a w1 have p: "poll lib s ctx start sr w =
      Some (Returned, errs_Add errMaxSearchWaitTimeExceeded (Sleep (2 * Second) (Body_Close ?res w1)))"
    by simp
  show "map_option (clock \<circ> snd) (poll lib s ctx start sr w)
      = Some (clock w + int (latency out) + 2 * Second)"
    using p w1 by simp
  show "map_option (errs \<circ> snd) (poll lib s ctx start sr w)
      = Some (errs w @ [errMaxSearchWaitTimeExceeded])"
    using p w1 by simp
  show "map_option (sent \<circ> snd) (poll lib s ctx start sr w) = Some (sent w @ [req])"
    using p w1 by (simp add: errs_Add_def Sleep_def Body_Close_def)
qed

theorem cancellation_surfaces_at_requests_only_witness:
  "reply \<lparr>latency = 500000000, reply = Inl (ExtError ''context canceled'')\<rparr>
     = Inl (ExtError ''context canceled'') \<and>
   map_option (errs \<circ> snd)
     (poll fx_lib (fx_scraper True False 60000000000) \<lparr>canceledAt = Some 500000000\<rparr> 0
        \<lparr>search = ''search=Q'', Jobid = None, Return = 0, Fields = []\<rparr>
        (fx_world [\<lparr>latency = 500000000, reply = Inl (ExtError ''context canceled'')\<rparr>,
                   fx_reply 200 221 xml_results None]))
     = Some [ExtError ''context canceled''] \<and>
   map_option (clock \<circ> snd)
     (poll fx_lib (fx_scraper True False 60000000000) \<lparr>canceledAt = Some 500000000\<rparr> 0
        \<lparr>search = ''search=Q'', Jobid = None, Return = 0, Fields = []\<rparr>
        (fx_world [\<lparr>latency = 500000000, reply = Inl (ExtError ''context canceled'')\<rparr>,
                   fx_reply 200 221 xml_results None]))
     = Some 500000000 \<and>
   is204 (fx_reply 204 0 [] None) \<and>
   map_option (clock \<circ> snd)
     (poll fx_lib (fx_scraper True False 1000000000) \<lparr>canceledAt = Some 500000000\<rparr> 0
        \<lparr>search = ''search=Q'', Jobid = None, Return = 0, Fields = []\<rparr>
        (fx_world [fx_reply 204 0 [] None, fx_reply 200 221 xml_results None]))
     = Some 2000000000 \<and>
   map_option (errs \<circ> snd)
     (poll fx_lib (fx_scraper True False 1000000000) \<lparr>canceledAt = Some 500000000\<rparr> 0
        \<lparr>search = ''search=Q'', Jobid = None, Return = 0, Fields = []\<rparr>
        (fx_world [fx_reply 204 0 [] None, fx_reply 200 221 xml_results None]))
     = Some [errMaxSearchWaitTimeExceeded]"
proof -
  let ?ctx = "\<lparr>canceledAt = Some 500000000\<rparr>"
  let ?sr = "\<lparr>search = ''search=Q'', Jobid = None, Return = 0, Fields = []\<rparr>"
  let ?req = "\<lparr>req_ctx = ?ctx, req_method = ''POST'', req_url = ''/services/search/jobs/'',
               req_data = ''search=Q''\<rparr>"
  let ?fail = "\<lparr>latency = 500000000, reply = Inl (ExtError ''context canceled'')\<rparr>"
  let ?w1 = "fx_world [?fail, fx_reply 200 221 xml_results None] :: int world"
  let ?w2 = "fx_world [fx_reply 204 0 [] None, fx_reply 200 221 xml_results None] :: int world"
  have a1: "createRequest (splunkClient (fx_scraper True False 60000000000)) ?ctx ?sr = Inr ?req \<and>
        transport ?w1 = ?fail # [fx_reply 200 221 xml_results None] \<and>
        reply ?fail = Inl (ExtError ''context canceled'')"
    by (simp add: fx_scraper_def fx_client_def fx_world_def)
  have p: "is204 (fx_reply 204 0 [] None)"
    by (simp add: is204_def fx_reply_def)
  have a2: "createRequest (splunkClient (fx_scraper True False 1000000000)) ?ctx ?sr = Inr ?req \<and>
        transport ?w2 = fx_reply 204 0 [] None # [fx_reply 200 221 xml_results None] \<and>
        is204 (fx_reply 204 0 [] None) \<and>
        MaxSearchWaitTime (conf (fx_scraper True False 1000000000))
          < clock ?w2 + int (latency (fx_reply 204 0 [] None)) + 2 * Second - 0"
    using p by (simp add: fx_scraper_def fx_client_def fx_world_def fx_reply_def Second_def)
  have c1: "poll fx_lib (fx_scraper True False 60000000000) ?ctx 0 ?sr ?w1 =
      Some (Returned, ?w1\<lparr>clock := clock ?w1 + int (latency ?fail),
                            transport := [fx_reply 200 221 xml_results None],
                            sent := sent ?w1 @ [?req],
                            errs := errs ?w1 @ [ExtError ''context canceled'']\<rparr>)"
    using cancellation_surfaces_at_requests_only
      [of "fx_scraper True False 60000000000" ?ctx ?sr ?req ?w1 ?fail
          "[fx_reply 200 221 xml_results None]" "ExtError ''context canceled''" fx_lib 0] a1
    by blast
  have c2: "map_option (clock \<circ> snd) (poll fx_lib (fx_scraper True False 1000000000) ?ctx 0 ?sr ?w2)
      = Some (clock ?w2 + int (latency (fx_reply 204 0 [] None)) + 2 * Second) \<and>
    map_option (errs \<circ> snd) (poll fx_lib (fx_scraper True False 1000000000) ?ctx 0 ?sr ?w2)
      = Some (errs ?w2 @ [errMaxSearchWaitTimeExceeded])"
    using cancellation_surfaces_at_requests_only
      [of "fx_scraper True False 1000000000" ?ctx ?sr ?req ?w2 "fx_reply 204 0 [] None"
          "[fx_reply 200 221 xml_results None]" _ fx_lib 0] a2
    by blast
  from c1 c2 p show ?thesis
    by (simp add: fx_world_def fx_reply_def Second_def)
qed

text \<open>
  C6. A task whose enabled flag is false returns the state it was given: no request
  is logged, the accumulator and the metrics builder are as they were.
\<close>

theorem disabled_task_is_skipped:
  "(\<not> SplunkLicenseIndexUsage_Enabled (conf s) \<longrightarrow>
      scrapeLicenseUsageByIndex lib s ctx now w = Some w) \<and>
   (\<not> SplunkIndexerThroughput_Enabled (conf s) \<longrightarrow>
      scrapeIndexThroughput lib s ctx now w = Some w)"
  by (simp add: scrapeLicenseUsageByIndex_def scrapeIndexThroughput_def)

theorem disabled_task_is_skipped_witness:
  "\<not> SplunkLicenseIndexUsage_Enabled (conf (fx_scraper False False 60000000000)) \<and>
   scrapeLicenseUsageByIndex fx_lib (fx_scraper False False 60000000000) fx_ctx 0
     (fx_world [fx_reply 200 221 xml_results None]) = Some (fx_world [fx_reply 200 221 xml_results None]) \<and>
   \<not> SplunkIndexerThroughput_Enabled (conf (fx_scraper False False 60000000000)) \<and>
   scrapeIndexThroughput fx_lib (fx_scraper False False 60000000000) fx_ctx 0
     (fx_world [fx_reply 200 56 json_entry None]) = Some (fx_world [fx_reply 200 56 json_entry None])"
proof -
  have off: "\<not> SplunkLicenseIndexUsage_Enabled (conf (fx_scraper False False 60000000000))"
            "\<not> SplunkIndexerThroughput_Enabled (conf (fx_scraper False False 60000000000))"
    by (simp_all add: fx_scraper_def)
  from disabled_task_is_skipped [of "fx_scraper False False 60000000000" fx_lib fx_ctx 0
        "fx_world [fx_reply 200 221 xml_results None]"]
       disabled_task_is_skipped [of "fx_scraper False False 60000000000" fx_lib fx_ctx 0
        "fx_world [fx_reply 200 56 json_entry None]"] off
  show ?thesis by blast
qed

text \<open>
  Against C7 as it is worded (an empty body is never a decode failure, on either
  path): the endpoint path hands every body to the JSON decoder, the empty one too,
  and the decoder's end-of-input error goes into the accumulator.
\<close>

theorem endpoint_empty_body_is_decode_failure:
  "map_option errs
     (scrapeIndexThroughput fx_lib (fx_scraper False True 60000000000) fx_ctx 0
        (fx_world [fx_reply 200 0 [] None]))
     = Some [ExtError ''unexpected end of JSON input'']"
  by (simp add: fx_defs run_defs)

text \<open>
  C7, as the code has it. On the job path a response whose \<^verbatim>\<open>ContentLength\<close> is 0
  is not read at all: the status code is stored and no error returned. The endpoint
  path has no case for the empty body: it is decoded as any other, and what the
  decoder says of it stands.
\<close>

theorem empty_body_decoding:
  "(ContentLength res = 0 \<longrightarrow>
      unmarshallSearchReq lib res sr = (None, sr\<lparr>Return := StatusCode res\<rparr>)) \<and>
   (SplunkIndexerThroughput_Enabled (conf s) \<and>
    createAPIRequest (splunkClient s) ctx (apiDict lib ''SplunkIndexerThroughput'') = Inr req \<and>
    transport w = out # rest \<and> reply out = Inr res \<and> ReadAll res = ([], None) \<and>
    json_Unmarshal lib [] \<lparr>Entries = []\<rparr> = (derr, it1) \<longrightarrow>
      map_option errs (scrapeIndexThroughput lib s ctx now w)
        = Some (errs w @ (case derr of None \<Rightarrow> [] | Some err \<Rightarrow> [err])))"
proof (intro conjI impI)
  assume "ContentLength res = 0"
  then show "unmarshallSearchReq lib res sr = (None, sr\<lparr>Return := StatusCode res\<rparr>)"
    by (simp add: unmarshallSearchReq_def)
next
  assume a: "SplunkIndexerThroughput_Enabled (conf s) \<and>
    createAPIRequest (splunkClient s) ctx (apiDict lib ''SplunkIndexerThroughput'') = Inr req \<and>
    transport w = out # rest \<and> reply out = Inr res \<and> ReadAll res = ([], None) \<and>
    json_Unmarshal lib [] \<lparr>Entries = []\<rparr> = (derr, it1)"
  then have tr: "transport w = out # rest" and rp: "reply out = Inr res" by simp_all
  from makeRequest_reply [OF tr rp, of req] obtain w1 where
    w1: "makeRequest (Some req) w = Some (Inr (res\<lparr>Body := length (sent w)\<rparr>), w1)"
        "errs w1 = errs w"
    by blast
  have e: "errs (recordEntries lib now es v) = errs v" for es and v :: "'a world"
    by (induction es arbitrary: v) (simp_all add: RecordSplunkIndexerThroughputDataPoint_def)
  show "map_option errs (scrapeIndexThroughput lib s ctx now w)
        = Some (errs w @ (case derr of None \<Rightarrow> [] | Some err \<Rightarrow> [err]))"
    using a w1 by (simp add: scrapeIndexThroughput_def Let_def e split: option.splits)
qed

theorem empty_body_decoding_witness:
  "ContentLength \<lparr>StatusCode = 204, ContentLength = 0, Body = 0, ReadAll = ([], None)\<rparr> = 0 \<and>
   unmarshallSearchReq fx_lib
       \<lparr>StatusCode = 204, ContentLength = 0, Body = 0, ReadAll = ([], None)\<rparr>
       \<lparr>search = ''search=Q'', Jobid = None, Return = 0, Fields = []\<rparr>
     = (None, \<lparr>search = ''search=Q'', Jobid = None, Return = 204, Fields = []\<rparr>) \<and>
   json_Unmarshal fx_lib [] \<lparr>Entries = []\<rparr>
     = (Some (ExtError ''unexpected end of JSON input''), \<lparr>Entries = []\<rparr>) \<and>
   map_option errs (scrapeIndexThroughput fx_lib (fx_scraper False True 60000000000) fx_ctx 0
       (fx_world [fx_reply 204 0 [] None]))
     = Some [ExtError ''unexpected end of JSON input'']"
proof -
  let ?res = "\<lparr>StatusCode = 204, ContentLength = 0, Body = 0, ReadAll = ([], None)\<rparr>"
  let ?sr = "\<lparr>search = ''search=Q'', Jobid = None, Return = 0, Fields = []\<rparr>"
  let ?s = "fx_scraper False True 60000000000"
  let ?req = "\<lparr>req_ctx = fx_ctx, req_method = ''GET'',
               req_url = ''/services/server/introspection/indexer?output_mode=json'',
               req_data = []\<rparr>"
  let ?w = "fx_world [fx_reply 204 0 [] None] :: int world"
  have h1: "ContentLength ?res = 0" by simp
  have ju: "json_Unmarshal fx_lib [] \<lparr>Entries = []\<rparr>
     = (Some (ExtError ''unexpected end of JSON input''), \<lparr>Entries = []\<rparr>)"
    by (simp add: fx_lib_def json_entry_def json_mistyped_def)
  have h2: "SplunkIndexerThroughput_Enabled (conf ?s) \<and>
    createAPIRequest (splunkClient ?s) fx_ctx (apiDict fx_lib ''SplunkIndexerThroughput'') = Inr ?req \<and>
    transport ?w = fx_reply 204 0 [] None # [] \<and> reply (fx_reply 204 0 [] None) = Inr ?res \<and>
    ReadAll ?res = ([], None) \<and>
    json_Unmarshal fx_lib [] \<lparr>Entries = []\<rparr>
      = (Some (ExtError ''unexpected end of JSON input''), \<lparr>Entries = []\<rparr>)"
    using ju by (simp add: fx_scraper_def fx_client_def fx_lib_def fx_world_def fx_reply_def)
  from empty_body_decoding [of ?res fx_lib ?sr ?s fx_ctx ?req ?w "fx_reply 204 0 [] None" "[]"
      "Some (ExtError ''unexpected end of JSON input'')" "\<lparr>Entries = []\<rparr>" 0] h1 h2
  have "unmarshallSearchReq fx_lib ?res ?sr = (None, ?sr\<lparr>Return := StatusCode ?res\<rparr>) \<and>
        map_option errs (scrapeIndexThroughput fx_lib ?s fx_ctx 0 ?w)
          = Some (errs ?w @ [ExtError ''unexpected end of JSON input''])"
    by simp
  with h1 ju show ?thesis by (simp add: fx_world_def)
qed

text \<open>
  C8. The license-usage task is enabled (and is the cycle's only task), the first
  poll is answered 204 with no body, the poller asks again (the first poll and its
  sleep are within the maximum wait), and the second poll is answered 200 with a body
  that decodes to a job id and to fields of which those named \<^verbatim>\<open>indexname\<close> and
  \<^verbatim>\<open>By\<close> are \<open>indexname = main\<close> and \<open>By = 42.0\<close>, in this order; the literal
  \<open>42.0\<close> converts to a float whose integer part is 42. Then the cycle emits
  exactly one new datapoint, of dimension \<open>main\<close> and value 42, and its combined
  error is empty. Fields of other names do not matter.
\<close>

theorem license_usage_end_to_end:
  assumes en: "SplunkLicenseIndexUsage_Enabled (conf s)"
    and dis: "\<not> SplunkIndexerThroughput_Enabled (conf s)"
    and cr: "\<forall>sr. \<not> isl (createRequest (splunkClient s) ctx sr)"
    and tr: "transport w = pending # ready # rest"
    and p: "is204 pending"
    and second_poll: "int (latency pending) + 2 * Second \<le> MaxSearchWaitTime (conf s)"
    and r: "reply ready = Inr res" "StatusCode res = 200" "ContentLength res \<noteq> 0"
           "ReadAll res = (body, None)"
    and dec: "xml_Unmarshal lib body
                \<lparr>search = searchDict lib ''SplunkLicenseIndexUsageSearch'', Jobid = None,
                   Return = 200, Fields = []\<rparr> = (None, sr2)"
    and sr2: "Return sr2 = 200" "Jobid sr2 \<noteq> None"
    and fs: "filter (\<lambda>f. FieldName f = ''indexname'' \<or> FieldName f = ''By'') (Fields sr2)
               = [\<lparr>FieldName = ''indexname'', Value = ''main''\<rparr>,
                  \<lparr>FieldName = ''By'', Value = ''42.0''\<rparr>]"
    and pf: "ParseFloat lib ''42.0'' = Inr v" "int64 lib v = 42"
  shows "map_option fst (scrape lib s ctx w) =
           Some (mb w @ [\<lparr>dp_metric = SplunkLicenseIndexUsage, dp_ts = clock w,
                            dp_value = IntVal 42, dp_attr = ''main''\<rparr>], None)"
proof -
  let ?w0 = "w\<lparr>errs := []\<rparr>"
  let ?sr0 = "\<lparr>search = searchDict lib ''SplunkLicenseIndexUsageSearch'', Jobid = None,
                Return = 0, Fields = []\<rparr>"
  let ?now = "clock w"
  \<comment> \<open>first poll: 204, sleep, within the wait\<close>
  from cr have "\<not> isl (createRequest (splunkClient s) ctx ?sr0)" by blast
  then obtain req1 where req1: "createRequest (splunkClient s) ctx ?sr0 = Inr req1"
    by (cases "createRequest (splunkClient s) ctx ?sr0") simp_all
  from p obtain res1 where res1: "reply pending = Inr res1" "StatusCode res1 = 204" "ContentLength res1 = 0"
    by (auto simp: is204_def split: sum.splits)
  have tr0: "transport ?w0 = pending # ready # rest" using tr by simp
  from makeRequest_reply [OF tr0 res1(1), of req1] obtain w1 where
    w1: "makeRequest (Some req1) ?w0 = Some (Inr (res1\<lparr>Body := length (sent ?w0)\<rparr>), w1)"
        "clock w1 = clock ?w0 + int (latency pending)" "transport w1 = ready # rest"
        "errs w1 = errs ?w0" "mb w1 = mb ?w0"
    by blast
  let ?res1 = "res1\<lparr>Body := length (sent ?w0)\<rparr>"
  let ?w3 = "Sleep (2 * Second) (Body_Close ?res1 w1)"
  have "poll lib s ctx ?now ?sr0 ?w0 =
     (if clock w1 + 2 * Second - ?now > MaxSearchWaitTime (conf s)
      then Some (Returned, errs_Add errMaxSearchWaitTimeExceeded ?w3)
      else poll lib s ctx ?now (?sr0\<lparr>Return := 204\<rparr>) ?w3)"
    using res1 by (intro poll_awaiting [OF req1 w1(1)]) simp_all
  with second_poll w1(2) have step1: "poll lib s ctx ?now ?sr0 ?w0 = poll lib s ctx ?now (?sr0\<lparr>Return := 204\<rparr>) ?w3"
    by simp
  \<comment> \<open>second poll: 200, decoded, job id present\<close>
  let ?sr1 = "?sr0\<lparr>Return := 204\<rparr>"
  from cr have "\<not> isl (createRequest (splunkClient s) ctx ?sr1)" by blast
  then obtain req2 where req2: "createRequest (splunkClient s) ctx ?sr1 = Inr req2"
    by (cases "createRequest (splunkClient s) ctx ?sr1") simp_all
  have tr3: "transport ?w3 = ready # rest" using w1(3) by simp
  from makeRequest_reply [OF tr3 r(1), of req2] obtain w4 where
    w4: "makeRequest (Some req2) ?w3 = Some (Inr (res\<lparr>Body := length (sent ?w3)\<rparr>), w4)"
        "errs w4 = errs ?w3" "mb w4 = mb ?w3"
    by blast
  let ?res = "res\<lparr>Body := length (sent ?w3)\<rparr>"
  have um: "unmarshallSearchReq lib ?res ?sr1 = (None, sr2)"
    using r dec by (intro unmarshallSearchReq_decoded [where body = body]) simp_all
  have step2: "poll lib s ctx ?now ?sr1 ?w3 = Some (Break sr2, Body_Close ?res w4)"
    by (rule poll_ready [OF req2 w4(1) um sr2])
  \<comment> \<open>the field mapping\<close>
  let ?w5 = "Body_Close ?res w4"
  have e5: "errs ?w5 = []" and m5: "mb ?w5 = mb w" using w4 w1 by simp_all
  let ?w6 = "recordFields lib ?now (Fields sr2) [] ?w5"
  have "?w6 = recordFields lib ?now [\<lparr>FieldName = ''indexname'', Value = ''main''\<rparr>,
                  \<lparr>FieldName = ''By'', Value = ''42.0''\<rparr>] [] ?w5"
    using recordFields_recognised [of lib ?now "Fields sr2" "[]" ?w5] fs by simp
  then have w6: "errs ?w6 = []"
     "mb ?w6 = mb w @ [\<lparr>dp_metric = SplunkLicenseIndexUsage, dp_ts = clock w,
                            dp_value = IntVal 42, dp_attr = ''main''\<rparr>]"
    using pf e5 m5 by (simp_all add: RecordSplunkLicenseIndexUsageDataPoint_def)
  have lic: "scrapeLicenseUsageByIndex lib s ctx ?now ?w0 = Some ?w6"
    using en step1 step2 by (simp add: scrapeLicenseUsageByIndex_def)
  have thr: "scrapeIndexThroughput lib s ctx ?now ?w6 = Some ?w6"
    using dis by (simp add: scrapeIndexThroughput_def)
  show ?thesis
    using lic thr w6 by (simp add: scrape_def Emit_def Combine_def Let_def)
qed


theorem license_usage_end_to_end_witness:
  "is204 (fx_reply 204 0 [] None) \<and>
   int (latency (fx_reply 204 0 [] None)) + 2 * Second
     \<le> MaxSearchWaitTime (conf (fx_scraper True False 60000000000)) \<and>
   xml_Unmarshal fx_lib xml_results
     \<lparr>search = searchDict fx_lib ''SplunkLicenseIndexUsageSearch'', Jobid = None,
        Return = 200, Fields = []\<rparr>
     = (None, \<lparr>search = ''search=Q'', Jobid = Some ''7'', Return = 200,
               Fields = [\<lparr>FieldName = ''indexname'', Value = ''main''\<rparr>,
                         \<lparr>FieldName = ''host'', Value = ''idx1''\<rparr>,
                         \<lparr>FieldName = ''By'', Value = ''42.0''\<rparr>]\<rparr>) \<and>
   ParseFloat fx_lib ''42.0'' = Inr 42 \<and> int64 fx_lib 42 = 42 \<and>
   map_option fst (scrape fx_lib (fx_scraper True False 60000000000) fx_ctx
       (fx_world [fx_reply 204 0 [] None, fx_reply 200 221 xml_results None]))
     = Some ([\<lparr>dp_metric = SplunkLicenseIndexUsage, dp_ts = 0, dp_value = IntVal 42,
                 dp_attr = ''main''\<rparr>], None)"
proof -
  let ?s = "fx_scraper True False 60000000000"
  let ?sr2 = "\<lparr>search = ''search=Q'', Jobid = Some ''7'', Return = 200,
               Fields = [\<lparr>FieldName = ''indexname'', Value = ''main''\<rparr>,
                         \<lparr>FieldName = ''host'', Value = ''idx1''\<rparr>,
                         \<lparr>FieldName = ''By'', Value = ''42.0''\<rparr>]\<rparr>"
  let ?res = "\<lparr>StatusCode = 200, ContentLength = 221, Body = 0, ReadAll = (xml_results, None)\<rparr>"
  have en: "SplunkLicenseIndexUsage_Enabled (conf ?s)"
    and dis: "\<not> SplunkIndexerThroughput_Enabled (conf ?s)"
    and cr: "\<forall>sr. \<not> isl (createRequest (splunkClient ?s) fx_ctx sr)"
    by (simp_all add: fx_scraper_def fx_client_def)
  have tr: "transport (fx_world [fx_reply 204 0 [] None, fx_reply 200 221 xml_results None] :: int world)
              = fx_reply 204 0 [] None # fx_reply 200 221 xml_results None # []"
    by (simp add: fx_world_def)
  have p: "is204 (fx_reply 204 0 [] None)"
    by (simp add: is204_def fx_reply_def)
  have second_poll: "int (latency (fx_reply 204 0 [] None)) + 2 * Second \<le> MaxSearchWaitTime (conf ?s)"
    by (simp add: fx_reply_def fx_scraper_def Second_def)
  have r: "reply (fx_reply 200 221 xml_results None) = Inr ?res" "StatusCode ?res = 200"
      "ContentLength ?res \<noteq> 0" "ReadAll ?res = (xml_results, None)"
    by (simp_all add: fx_reply_def)
  have dec: "xml_Unmarshal fx_lib xml_results
     \<lparr>search = searchDict fx_lib ''SplunkLicenseIndexUsageSearch'', Jobid = None,
        Return = 200, Fields = []\<rparr> = (None, ?sr2)"
    by (simp add: fx_lib_def)
  have sr2: "Return ?sr2 = 200" "Jobid ?sr2 \<noteq> None"
    by simp_all
  have fs: "filter (\<lambda>f. FieldName f = ''indexname'' \<or> FieldName f = ''By'') (Fields ?sr2)
               = [\<lparr>FieldName = ''indexname'', Value = ''main''\<rparr>,
                  \<lparr>FieldName = ''By'', Value = ''42.0''\<rparr>]"
    by simp
  have pf: "ParseFloat fx_lib ''42.0'' = Inr 42" "int64 fx_lib 42 = 42"
    by (simp_all add: fx_lib_def)
  from license_usage_end_to_end [OF en dis cr tr p second_poll r dec sr2 fs pf]
  have "map_option fst (scrape fx_lib ?s fx_ctx
       (fx_world [fx_reply 204 0 [] None, fx_reply 200 221 xml_results None]))
     = Some ([\<lparr>dp_metric = SplunkLicenseIndexUsage, dp_ts = 0, dp_value = IntVal 42,
                 dp_attr = ''main''\<rparr>], None)"
    by (simp add: fx_world_def)
  with p second_poll dec pf show ?thesis by blast
qed

text \<open>
  C9. \<^verbatim>\<open>scrape\<close> reads the clock once, at the start of the cycle, and every datapoint
  that either task records during the cycle carries that reading, however long the
  polls and sleeps of the cycle take: the emitted datapoints are those the builder held
  before the cycle, followed by datapoints stamped with the clock at the start.
\<close>

theorem scrape_one_timestamp:
  assumes "scrape lib s ctx w = Some ((metrics, err), w')"
  shows "\<exists>new. metrics = mb w @ new \<and> list_all (\<lambda>d. dp_ts d = clock w) new"
proof -
  let ?w0 = "w\<lparr>errs := []\<rparr>"
  from assms obtain w1 w2 where
    a: "scrapeLicenseUsageByIndex lib s ctx (clock w) ?w0 = Some w1" and
    b: "scrapeIndexThroughput lib s ctx (clock w) w1 = Some w2" and
    c: "metrics = mb w2"
    by (auto simp: scrape_def Emit_def Let_def split: option.splits)
  from scrapeLicenseUsageByIndex_mb [OF a] obtain n1 where
    n1: "mb w1 = mb w @ n1" "list_all (\<lambda>d. dp_ts d = clock w) n1" by auto
  from scrapeIndexThroughput_mb [OF b] obtain n2 where
    n2: "mb w2 = mb w1 @ n2" "list_all (\<lambda>d. dp_ts d = clock w) n2" by auto
  from c n1 n2 have "metrics = mb w @ (n1 @ n2) \<and> list_all (\<lambda>d. dp_ts d = clock w) (n1 @ n2)"
    by simp
  then show ?thesis by blast
qed

theorem scrape_one_timestamp_witness:
  "map_option fst (scrape fx_lib (fx_scraper True True 60000000000) fx_ctx
      (fx_world [fx_reply 204 0 [] None, fx_reply 200 221 xml_results None,
                 fx_reply 200 56 json_entry None]))
     = Some ([\<lparr>dp_metric = SplunkLicenseIndexUsage, dp_ts = 0, dp_value = IntVal 42,
                 dp_attr = ''main''\<rparr>,
              \<lparr>dp_metric = SplunkIndexerThroughput, dp_ts = 0, dp_value = DoubleVal 2000,
                 dp_attr = ''ok''\<rparr>], None) \<and>
   (\<exists>new. [\<lparr>dp_metric = SplunkLicenseIndexUsage, dp_ts = 0, dp_value = IntVal 42,
                 dp_attr = ''main''\<rparr>,
              \<lparr>dp_metric = SplunkIndexerThroughput, dp_ts = 0, dp_value = DoubleVal 2000,
                 dp_attr = ''ok''\<rparr>] = mb (fx_world [] :: int world) @ new \<and>
          list_all (\<lambda>d. dp_ts d = clock (fx_world [] :: int world)) new)"
proof -
  let ?w = "fx_world [fx_reply 204 0 [] None, fx_reply 200 221 xml_results None,
                 fx_reply 200 56 json_entry None] :: int world"
  let ?ms = "[\<lparr>dp_metric = SplunkLicenseIndexUsage, dp_ts = 0, dp_value = IntVal 42,
                 dp_attr = ''main''\<rparr>,
              \<lparr>dp_metric = SplunkIndexerThroughput, dp_ts = 0, dp_value = DoubleVal (2000::int),
                 dp_attr = ''ok''\<rparr>]"
  have "\<exists>w'. scrape fx_lib (fx_scraper True True 60000000000) fx_ctx ?w = Some ((?ms, None), w')"
    by (simp add: fx_defs run_defs)
  then obtain w' where run: "scrape fx_lib (fx_scraper True True 60000000000) fx_ctx ?w = Some ((?ms, None), w')"
    by blast
  from scrape_one_timestamp [OF run] run show ?thesis
    by (simp add: fx_world_def)
qed


text \<open>
  C10. In the field mapping of the license-usage task, for every sequence of decoded
  fields, the datapoint of a \<^verbatim>\<open>By\<close> field has as its dimension the value of the most
  recent \<^verbatim>\<open>indexname\<close> field before it, and the empty string when no \<^verbatim>\<open>indexname\<close>
  field comes before it: such a field is neither skipped nor reported. The only
  failures added are the conversion failures of \<^verbatim>\<open>By\<close> values.
\<close>

theorem recordFields_dimension:
  "mb (recordFields lib now fs [] w) = mb w @ usage_datapoints lib now fs \<and>
   errs (recordFields lib now fs [] w) = errs w @ conversion_failures lib fs"
proof -
  have "dp_at lib now [] fs = (\<lambda>i. if FieldName (fs ! i) = ''By''
            then (case ParseFloat lib (Value (fs ! i)) of
                    Inl err \<Rightarrow> None
                  | Inr v \<Rightarrow> Some \<lparr>dp_metric = SplunkLicenseIndexUsage, dp_ts = now,
                                    dp_value = IntVal (int64 lib v),
                                    dp_attr = indexname_before fs i\<rparr>)
            else None)"
    by (rule ext) (simp add: dp_at_def dim_from_def indexname_before_def split: sum.splits)
  then have "List.map_filter (dp_at lib now [] fs) [0..<length fs] = usage_datapoints lib now fs"
    by (simp only: usage_datapoints_def)
  with recordFields_mb_from [of lib now fs "[]" w] recordFields_errs [of lib now fs "[]" w]
  show ?thesis by simp
qed

text \<open>
  An example of the mapping: a \<^verbatim>\<open>By\<close> field before any \<^verbatim>\<open>indexname\<close> field, one after
  it, an unknown field, and a \<^verbatim>\<open>By\<close> field whose value is no number.
\<close>

lemma recordFields_example:
  "mb (recordFields fx_lib 5
         [\<lparr>FieldName = ''By'', Value = ''42.0''\<rparr>,
          \<lparr>FieldName = ''indexname'', Value = ''main''\<rparr>,
          \<lparr>FieldName = ''host'', Value = ''idx1''\<rparr>,
          \<lparr>FieldName = ''By'', Value = ''42.0''\<rparr>,
          \<lparr>FieldName = ''By'', Value = ''n/a''\<rparr>] [] (fx_world []))
     = [\<lparr>dp_metric = SplunkLicenseIndexUsage, dp_ts = 5, dp_value = IntVal 42, dp_attr = []\<rparr>,
        \<lparr>dp_metric = SplunkLicenseIndexUsage, dp_ts = 5, dp_value = IntVal 42,
           dp_attr = ''main''\<rparr>] \<and>
   errs (recordFields fx_lib 5
         [\<lparr>FieldName = ''By'', Value = ''42.0''\<rparr>,
          \<lparr>FieldName = ''indexname'', Value = ''main''\<rparr>,
          \<lparr>FieldName = ''host'', Value = ''idx1''\<rparr>,
          \<lparr>FieldName = ''By'', Value = ''42.0''\<rparr>,
          \<lparr>FieldName = ''By'', Value = ''n/a''\<rparr>] [] (fx_world []))
     = [ExtError ''strconv.ParseFloat: invalid syntax'']"
  by (simp add: fx_defs run_defs)

end
